(* ===== verification/Prelude.thy ===== *)
theory Prelude
  imports Complex_Main
begin

text \<open>
  Shared vocabulary of the model of \<^verbatim>\<open>src/accuracy.py\<close>: the Python exceptions the
  program can raise (errors are values of \<open>py_exc + 'a\<close>, \<open>Inl\<close> the exception),
  the propagation of an exception through a sequence of statements (\<open>res_bind\<close>),
  a loop over a list that stops at the first exception (\<open>res_map\<close>, a Python list
  comprehension whose element expression may raise), the decimal rendering of
  naturals used by every string the program formats, and the list and sum lemmas
  the component theories share.
\<close>

section \<open>Names of the model's types\<close>

type_synonym ordinal = int    \<comment> \<open>\<^verbatim>\<open>datetime.toordinal()\<close>: days, 0001-01-01 is day 1\<close>
type_synonym price = real     \<comment> \<open>a float price, idealised as an exact real\<close>
type_synonym ticker = string

section \<open>Exceptions\<close>

text \<open>
  \<open>value_error\<close> distinguishes the \<^verbatim>\<open>ValueError\<close>s the program can meet: the one it
  raises itself in \<^verbatim>\<open>get_start_date\<close>, the ones scikit-learn raises on an empty or
  NaN-containing training set, numpy's refusal to take the truth value of an array
  with several elements, and pandas' refusal to build a frame from columns of
  different lengths.
\<close>

datatype value_error =
    UnsupportedDuration
  | EmptyTrainingSet
  | InputContainsNaN
  | AmbiguousTruthValue
  | ArrayLengthMismatch

datatype py_exc =
    ValueError value_error
  | OverflowError          \<comment> \<open>\<^verbatim>\<open>date value out of range\<close> in date arithmetic\<close>
  | FileNotFoundError
  | EmptyDataError         \<comment> \<open>\<^verbatim>\<open>pandas.errors.EmptyDataError\<close> on a file with no columns\<close>

type_synonym 'a result = "py_exc + 'a"

named_theorems model_simps "evaluation rules of the model's definitions"

section \<open>Exception propagation\<close>

definition res_bind :: "'a result \<Rightarrow> ('a \<Rightarrow> 'b result) \<Rightarrow> 'b result" where
  "res_bind m f = (case m of Inl e \<Rightarrow> Inl e | Inr x \<Rightarrow> f x)"

text \<open>A list comprehension \<^verbatim>\<open>[f(x) for x in xs]\<close> whose element expression may raise.\<close>

fun res_map :: "('a \<Rightarrow> 'b result) \<Rightarrow> 'a list \<Rightarrow> 'b list result" where
  "res_map f [] = Inr []"
| "res_map f (x # xs) = res_bind (f x) (\<lambda>y. res_bind (res_map f xs) (\<lambda>ys. Inr (y # ys)))"

section \<open>Decimal rendering\<close>

text \<open>
  \<open>nat_str n\<close> is \<^verbatim>\<open>str(n)\<close> for a natural number; \<open>zpad w n\<close> is the
  zero-padded field \<^verbatim>\<open>%0wd\<close> that \<^verbatim>\<open>strftime\<close> and \<^verbatim>\<open>format\<close> produce.
\<close>

definition digit_char :: "nat \<Rightarrow> char" where
  "digit_char d = ''0123456789'' ! d"

fun nat_str :: "nat \<Rightarrow> string" where
  "nat_str n = (if n < 10 then [digit_char n] else nat_str (n div 10) @ [digit_char (n mod 10)])"

declare nat_str.simps [simp del]

definition zpad :: "nat \<Rightarrow> nat \<Rightarrow> string" where
  "zpad w n = replicate (w - length (nat_str n)) (CHR ''0'') @ nat_str n"

section \<open>Lemmas on results, strings and lists\<close>

lemma res_bind_simps [simp]:
  "res_bind (Inl e) f = Inl e"
  "res_bind (Inr x) f = f x"
  by (simp_all add: res_bind_def)

lemma res_bind_eq_Inr_iff:
  "res_bind m f = Inr y \<longleftrightarrow> (\<exists>x. m = Inr x \<and> f x = Inr y)"
  by (cases m) simp_all

lemma res_bind_eq_Inl_iff:
  "res_bind m f = Inl e \<longleftrightarrow> m = Inl e \<or> (\<exists>x. m = Inr x \<and> f x = Inl e)"
  by (cases m) simp_all

lemma res_map_Inr_iff:
  "res_map f xs = Inr ys \<longleftrightarrow> list_all2 (\<lambda>x y. f x = Inr y) xs ys"
proof (induction xs arbitrary: ys)
  case Nil
  then show ?case by auto
next
  case (Cons x xs)
  then show ?case
    by (cases ys) (auto simp: res_bind_eq_Inr_iff)
qed

lemma res_map_all_Inr:
  assumes "\<And>x. x \<in> set xs \<Longrightarrow> f x = Inr (g x)"
  shows "res_map f xs = Inr (map g xs)"
  using assms by (induction xs) simp_all

lemma res_map_Inl:
  assumes "x \<in> set xs" and "f x = Inl e"
  shows "\<exists>e'. res_map f xs = Inl e' \<and> (\<exists>z \<in> set xs. f z = Inl e')"
  using assms
proof (induction xs)
  case Nil
  then show ?case by simp
next
  case (Cons y ys)
  show ?case
  proof (cases "f y")
    case (Inl e')
    then show ?thesis by auto
  next
    case (Inr v)
    with Cons.prems have "x \<in> set ys" by auto
    with Cons.IH Cons.prems obtain e' where "res_map f ys = Inl e'" and "\<exists>z \<in> set ys. f z = Inl e'"
      by blast
    with Inr show ?thesis by auto
  qed
qed

lemma res_map_length:
  "res_map f xs = Inr ys \<Longrightarrow> length ys = length xs"
  by (auto simp: res_map_Inr_iff dest: list_all2_lengthD)

lemma nat_str_not_Nil [simp]: "nat_str n \<noteq> []"
  by (subst nat_str.simps) simp

lemma digit_char_is_digit:
  "d < 10 \<Longrightarrow> digit_char d \<in> set ''0123456789''"
  unfolding digit_char_def by (rule nth_mem) simp

lemma nat_str_digits: "set (nat_str n) \<subseteq> set ''0123456789''"
proof (induction n rule: nat_str.induct)
  case (1 n)
  show ?case
  proof (cases "n < 10")
    case True
    then show ?thesis
      using digit_char_is_digit [of n] by (simp add: nat_str.simps [of n])
  next
    case False
    with "1.IH" show ?thesis
      using digit_char_is_digit [of "n mod 10"] by (simp add: nat_str.simps [of n])
  qed
qed

lemma length_nat_str_le: "n < 10 ^ k \<Longrightarrow> 0 < k \<Longrightarrow> length (nat_str n) \<le> k"
proof (induction n arbitrary: k rule: nat_str.induct)
  case (1 n)
  show ?case
  proof (cases "n < 10")
    case True
    with "1.prems" show ?thesis by (simp add: nat_str.simps [of n])
  next
    case False
    with "1.prems" obtain j where k: "k = Suc j" and j: "0 < j"
      by (cases k; cases "k - 1") auto
    from "1.prems" k have "n div 10 < 10 ^ j" by (simp add: less_mult_imp_div_less mult.commute)
    with "1.IH" False j have "length (nat_str (n div 10)) \<le> j" by simp
    with False k show ?thesis by (simp add: nat_str.simps [of n])
  qed
qed

lemma length_zpad: "n < 10 ^ w \<Longrightarrow> 0 < w \<Longrightarrow> length (zpad w n) = w"
  using length_nat_str_le [of n w] by (simp add: zpad_def)

section \<open>Lists\<close>

lemma those_eq_Some_iff: "those xs = Some ys \<longleftrightarrow> xs = map Some ys"
proof (induction xs arbitrary: ys)
  case Nil
  then show ?case by auto
next
  case (Cons x xs)
  then show ?case by (cases x; cases ys) auto
qed

lemma those_map_Some [simp]: "those (map Some ys) = Some ys"
  by (simp add: those_eq_Some_iff)

lemma those_eq_None_iff: "those xs = None \<longleftrightarrow> None \<in> set xs"
proof (induction xs)
  case Nil
  then show ?case by simp
next
  case (Cons x xs)
  then show ?case by (cases x) auto
qed

text \<open>
  Keeping exactly the positions from \<open>k\<close> on is dropping the first \<open>k\<close>: the shape of
  a filter that discards a prefix of incomplete rows.
\<close>

lemma filter_eq_drop:
  assumes "\<And>i. i < length xs \<Longrightarrow> P (xs ! i) \<longleftrightarrow> k \<le> i"
  shows "filter P xs = drop k xs"
  using assms
proof (induction xs arbitrary: k)
  case Nil
  then show ?case by simp
next
  case (Cons x xs)
  show ?case
  proof (cases k)
    case 0
    with Cons.prems have "\<And>i. i < length (x # xs) \<Longrightarrow> P ((x # xs) ! i)"
      by simp
    then have "\<forall>y \<in> set (x # xs). P y"
      by (metis in_set_conv_nth)
    with 0 show ?thesis by simp
  next
    case (Suc j)
    with Cons.prems have "\<not> P x" by fastforce
    moreover from Cons.prems Suc have "filter P xs = drop j xs"
      by (intro Cons.IH) fastforce
    ultimately show ?thesis using Suc by simp
  qed
qed


section \<open>Sums of reals over lists\<close>

lemma sum_list_zero_terms:
  "(\<And>p. p \<in> set xs \<Longrightarrow> f p = 0) \<Longrightarrow> (\<Sum>p\<leftarrow>xs. f p) = (0::real)"
  by (induction xs) auto

lemma sum_squares_eq_0:
  assumes s: "(\<Sum>p\<leftarrow>xs. (f p)\<^sup>2) = (0::real)" and p: "p \<in> set xs"
  shows "f p = 0"
proof -
  have "\<forall>x \<in> set (map (\<lambda>p. (f p)\<^sup>2) xs). 0 \<le> x" by auto
  with s have "\<forall>x \<in> set (map (\<lambda>p. (f p)\<^sup>2) xs). x = 0"
    using sum_list_nonneg_eq_0_iff by blast
  with p show "f p = 0" by auto
qed

end
