(* ===== verification/Companies.thy ===== *)
theory Companies
  imports Prelude
begin

text \<open>
  The selection tables of \<^verbatim>\<open>src/accuracy.py\<close>: the dictionary \<^verbatim>\<open>COMPANIES\<close>
  (lines 13--29) from display name to NSE ticker, read by \<^verbatim>\<open>COMPANIES.get\<close> in
  \<^verbatim>\<open>on_plot_button_click\<close>, and the values offered by the two comboboxes
  (lines 214--221). A Python dict literal is an association list in insertion order;
  its keys are distinct, so \<open>map_of\<close> is \<^verbatim>\<open>dict.get\<close>.
\<close>

definition COMPANIES :: "(string \<times> ticker) list" where
  "COMPANIES =
     [(''Tata Consultancy Services'', ''TCS.NS''),
      (''Reliance Industries'', ''RELIANCE.NS''),
      (''Infosys'', ''INFY.NS''),
      (''HDFC Bank'', ''HDFCBANK.NS''),
      (''ICICI Bank'', ''ICICIBANK.NS''),
      (''State Bank of India'', ''SBIN.NS''),
      (''Larsen & Toubro'', ''LT.NS''),
      (''Mahindra & Mahindra'', ''M&M.NS''),
      (''Bharti Airtel'', ''BHARTIARTL.NS''),
      (''Hindustan Unilever'', ''HINDUNILVR.NS''),
      (''Asian Paints'', ''ASIANPAINT.NS''),
      (''Maruti Suzuki'', ''MARUTI.NS''),
      (''Wipro'', ''WIPRO.NS''),
      (''Sun Pharmaceuticals'', ''SUNPHARMA.NS''),
      (''Tata Motors'', ''TATAMOTORS.NS'')]"

definition companies_get :: "string \<Rightarrow> ticker option" where
  "companies_get name = map_of COMPANIES name"

text \<open>The duration combobox's values and the two default selections.\<close>

definition DURATION_OPTIONS :: "string list" where
  "DURATION_OPTIONS = [''1 year'', ''2 years'', ''5 years'']"

definition default_company :: string where
  "default_company = fst (hd COMPANIES)"

definition default_duration :: string where
  "default_duration = ''1 year''"

declare COMPANIES_def [model_simps] companies_get_def [model_simps]
  DURATION_OPTIONS_def [model_simps] default_company_def [model_simps]
  default_duration_def [model_simps]

lemma COMPANIES_keys_distinct: "distinct (map fst COMPANIES)"
  by (simp add: COMPANIES_def)

lemma COMPANIES_tickers_distinct: "distinct (map snd COMPANIES)"
  by (simp add: COMPANIES_def)

lemma companies_get_Some_iff: "companies_get name = Some t \<longleftrightarrow> (name, t) \<in> set COMPANIES"
  using COMPANIES_keys_distinct by (simp add: companies_get_def)

lemma companies_get_None_iff: "companies_get name = None \<longleftrightarrow> name \<notin> fst ` set COMPANIES"
  by (simp add: companies_get_def map_of_eq_None_iff)

end
