(* ===== verification/Calendar.thy ===== *)
theory Calendar
  imports Prelude
begin

text \<open>
  The calendar dates of \<^verbatim>\<open>src/accuracy.py\<close>. The program reads the clock with
  \<^verbatim>\<open>datetime.today()\<close>, moves by \<^verbatim>\<open>timedelta(days=k)\<close>, takes
  \<^verbatim>\<open>toordinal()\<close> and prints with \<^verbatim>\<open>strftime('%Y-%m-%d')\<close>. A date is its
  proleptic Gregorian ordinal (\<^verbatim>\<open>date(1,1,1)\<close> is 1), so that the regression input
  \<^verbatim>\<open>toordinal()\<close> is the value itself; the time of day plays no part in any
  of these calls. These are Python library functions, modelled from their documented
  behaviour: the range check of date arithmetic (\<^verbatim>\<open>OverflowError\<close> outside years
  1 to 9999) and the conversion from ordinal to year, month, day of CPython's
  \<^verbatim>\<open>_ord2ymd\<close>.
\<close>

definition MAXORDINAL :: ordinal where
  "MAXORDINAL = 3652059"   \<comment> \<open>\<^verbatim>\<open>date(9999, 12, 31).toordinal()\<close>\<close>

definition valid_ordinal :: "ordinal \<Rightarrow> bool" where
  "valid_ordinal d \<longleftrightarrow> 1 \<le> d \<and> d \<le> MAXORDINAL"

text \<open>\<^verbatim>\<open>d + timedelta(days=k)\<close> and \<^verbatim>\<open>d - timedelta(days=k)\<close>.\<close>

definition add_days :: "ordinal \<Rightarrow> int \<Rightarrow> ordinal result" where
  "add_days d k = (if valid_ordinal (d + k) then Inr (d + k) else Inl OverflowError)"

definition sub_days :: "ordinal \<Rightarrow> int \<Rightarrow> ordinal result" where
  "sub_days d k = add_days d (- k)"

text \<open>CPython's \<^verbatim>\<open>_DAYS_BEFORE_MONTH\<close> and \<^verbatim>\<open>_DAYS_IN_MONTH\<close>, index 0 unused.\<close>

definition DAYS_BEFORE_MONTH :: "int list" where
  "DAYS_BEFORE_MONTH = [-1, 0, 31, 59, 90, 120, 151, 181, 212, 243, 273, 304, 334]"

definition DAYS_IN_MONTH :: "int list" where
  "DAYS_IN_MONTH = [-1, 31, 28, 31, 30, 31, 30, 31, 31, 30, 31, 30, 31]"

text \<open>
  \<^verbatim>\<open>_ord2ymd(n)\<close>: the 400-, 100- and 4-year cycles and the year, then the month
  estimated as \<^verbatim>\<open>(n + 50) >> 5\<close> and corrected by at most one.
\<close>

definition ord2ymd :: "ordinal \<Rightarrow> int \<times> int \<times> int" where
  "ord2ymd n0 =
     (let n = n0 - 1;
          n400 = n div 146097; r400 = n mod 146097;
          n100 = r400 div 36524; r100 = r400 mod 36524;
          n4 = r100 div 1461; r4 = r100 mod 1461;
          n1 = r4 div 365; r1 = r4 mod 365;
          year = n400 * 400 + 1 + n100 * 100 + n4 * 4 + n1
      in if n1 = 4 \<or> n100 = 4 then (year - 1, 12, 31)
         else
           (let leapyear = (n1 = 3 \<and> (n4 \<noteq> 24 \<or> n100 = 3));
                month = (r1 + 50) div 32;
                preceding = DAYS_BEFORE_MONTH ! nat month
                              + (if month > 2 \<and> leapyear then 1 else 0)
            in if preceding > r1 then
                 (let month' = month - 1;
                      preceding' = preceding - (DAYS_IN_MONTH ! nat month'
                                      + (if month' = 2 \<and> leapyear then 1 else 0))
                  in (year, month', r1 - preceding' + 1))
               else (year, month, r1 - preceding + 1)))"

text \<open>
  \<^verbatim>\<open>strftime('%Y-%m-%d')\<close>: year, month and day zero-padded to 4, 2 and 2 digits
  (every ordinal of \<open>valid_ordinal\<close> has a year of at most 9999; a year below 1000 is
  printed padded, as on the platforms that pad \<^verbatim>\<open>%Y\<close>).
\<close>

definition date_str :: "ordinal \<Rightarrow> string" where
  "date_str d =
     (case ord2ymd d of (y, m, dd) \<Rightarrow>
        zpad 4 (nat y) @ ''-'' @ zpad 2 (nat m) @ ''-'' @ zpad 2 (nat dd))"

declare MAXORDINAL_def [model_simps] valid_ordinal_def [model_simps]
  add_days_def [model_simps] sub_days_def [model_simps]
  DAYS_BEFORE_MONTH_def [model_simps] DAYS_IN_MONTH_def [model_simps]
  ord2ymd_def [model_simps] date_str_def [model_simps] zpad_def [model_simps]
  nat_str.simps [model_simps] digit_char_def [model_simps]

section \<open>Date arithmetic\<close>

lemma add_days_Inr_iff: "add_days d k = Inr d' \<longleftrightarrow> valid_ordinal (d + k) \<and> d' = d + k"
  by (auto simp: add_days_def)

lemma add_days_Inl_iff: "add_days d k = Inl e \<longleftrightarrow> \<not> valid_ordinal (d + k) \<and> e = OverflowError"
  by (auto simp: add_days_def)

lemma add_days_valid: "valid_ordinal d \<Longrightarrow> 0 \<le> k \<Longrightarrow> d + k \<le> MAXORDINAL \<Longrightarrow> add_days d k = Inr (d + k)"
  by (simp add: add_days_def valid_ordinal_def)

lemma sub_days_valid: "valid_ordinal d \<Longrightarrow> 0 \<le> k \<Longrightarrow> 1 \<le> d - k \<Longrightarrow> sub_days d k = Inr (d - k)"
  by (simp add: sub_days_def add_days_def valid_ordinal_def)

end
