(* ===== verification/DateRange.thy ===== *)
theory DateRange
  imports Calendar Companies
begin

text \<open>
  The date range resolver, \<^verbatim>\<open>get_start_date(duration)\<close> of \<^verbatim>\<open>src/accuracy.py\<close>
  (lines 37--48): today's date minus 365, 730 or 1825 days for the three supported
  labels, printed as \<^verbatim>\<open>YYYY-MM-DD\<close>; any other label raises \<^verbatim>\<open>ValueError\<close>.
  The clock reading \<^verbatim>\<open>datetime.today()\<close> is the parameter \<open>today\<close>.
\<close>

definition get_start_date :: "ordinal \<Rightarrow> string \<Rightarrow> string result" where
  "get_start_date today duration =
     res_bind
       (if duration = ''1 year'' then sub_days today 365
        else if duration = ''2 years'' then sub_days today (2 * 365)
        else if duration = ''5 years'' then sub_days today (5 * 365)
        else Inl (ValueError UnsupportedDuration))
       (\<lambda>start_date. Inr (date_str start_date))"

declare get_start_date_def [model_simps]

text \<open>
  The resolver's contract from the specification (section 4.1): the supported labels
  and the fixed number of days each stands for, with no leap-year adjustment.
\<close>

definition duration_days :: "string \<Rightarrow> int option" where
  "duration_days d =
     (if d = ''1 year'' then Some 365
      else if d = ''2 years'' then Some 730
      else if d = ''5 years'' then Some 1825
      else None)"

declare duration_days_def [model_simps]

lemma duration_days_bound: "duration_days d = Some k \<Longrightarrow> 0 < k \<and> k \<le> 1825"
  by (auto simp: duration_days_def split: if_splits)

lemma get_start_date_by_days:
  "get_start_date today d =
     (case duration_days d of
        None \<Rightarrow> Inl (ValueError UnsupportedDuration)
      | Some k \<Rightarrow> res_bind (sub_days today k) (\<lambda>s. Inr (date_str s)))"
  by (simp add: get_start_date_def duration_days_def)

text \<open>
  C12. The resolver meets its contract: for a clock reading at least 1825 days into
  the calendar, each supported label resolves to today minus 365, 730 or 1825 days,
  printed as \<^verbatim>\<open>YYYY-MM-DD\<close>, and every other label raises \<^verbatim>\<open>ValueError\<close>.
\<close>

theorem get_start_date_refines_spec:
  assumes "valid_ordinal today" and "1825 < today"
  shows "get_start_date today d =
           (case duration_days d of
              None \<Rightarrow> Inl (ValueError UnsupportedDuration)
            | Some k \<Rightarrow> Inr (date_str (today - k)))"
proof (cases "duration_days d")
  case None
  then show ?thesis by (simp add: get_start_date_by_days)
next
  case (Some k)
  with assms have "sub_days today k = Inr (today - k)"
    using duration_days_bound [OF Some] by (intro sub_days_valid) auto
  with Some show ?thesis by (simp add: get_start_date_by_days)
qed

theorem get_start_date_refines_spec_witness:
  "valid_ordinal 739000 \<and> (1825::int) < 739000 \<and>
   get_start_date 739000 ''2 years'' = Inr (date_str (739000 - 730))"
proof -
  have v: "valid_ordinal 739000" by (simp add: valid_ordinal_def MAXORDINAL_def)
  have "get_start_date 739000 ''2 years'' =
          (case duration_days ''2 years'' of
             None \<Rightarrow> Inl (ValueError UnsupportedDuration)
           | Some k \<Rightarrow> Inr (date_str (739000 - k)))"
    using get_start_date_refines_spec [OF v] by simp
  with v show ?thesis by (simp add: duration_days_def)
qed



end
