(* ===== verification/Features.thy ===== *)
theory Features
  imports Prelude
begin

text \<open>
  The feature deriver of \<^verbatim>\<open>plot_stock_data\<close> in \<^verbatim>\<open>src/accuracy.py\<close> (lines 79--84):
  \<^verbatim>\<open>data['MA50'] = data['Close'].rolling(window=50).mean()\<close>, the same with 200, and
  \<^verbatim>\<open>data.dropna(inplace=True)\<close>.

  A row of the downloaded frame is a \<open>bar\<close>: its date (the index, as an ordinal) and
  the five float columns yfinance returns, each \<open>None\<close> where the value is NaN. The
  enriched row extends it by the two new columns. \<^verbatim>\<open>rolling(window=w).mean()\<close> has
  \<^verbatim>\<open>min_periods = w\<close>: at position \<open>i\<close> it is the mean of the \<open>w\<close> closes ending
  at \<open>i\<close>, and NaN where fewer than \<open>w\<close> rows precede (inclusive) or any of them is
  NaN. \<^verbatim>\<open>dropna()\<close> keeps the rows with no NaN in any column, in order.
\<close>

record bar =
  bar_date :: ordinal
  bar_open :: "price option"
  bar_high :: "price option"
  bar_low :: "price option"
  bar_close :: "price option"
  bar_volume :: "real option"

record enriched = bar +
  MA50 :: "price option"
  MA200 :: "price option"

definition window_mean :: "nat \<Rightarrow> price option list \<Rightarrow> price option" where
  "window_mean w ws = map_option (\<lambda>vs. sum_list vs / real w) (those ws)"

definition rolling_mean :: "nat \<Rightarrow> price option list \<Rightarrow> price option list" where
  "rolling_mean w xs =
     map (\<lambda>i. if Suc i < w then None else window_mean w (take w (drop (Suc i - w) xs)))
       [0..<length xs]"

definition add_columns :: "bar \<Rightarrow> price option \<Rightarrow> price option \<Rightarrow> enriched" where
  "add_columns b m50 m200 = bar.extend b (enriched.fields m50 m200)"

definition with_moving_averages :: "bar list \<Rightarrow> enriched list" where
  "with_moving_averages data =
     (let closes = map bar_close data;
          ma50 = rolling_mean 50 closes;
          ma200 = rolling_mean 200 closes
      in map (\<lambda>(b, m50, m200). add_columns b m50 m200) (zip data (zip ma50 ma200)))"

definition row_complete :: "enriched \<Rightarrow> bool" where
  "row_complete r \<longleftrightarrow>
     bar_open r \<noteq> None \<and> bar_high r \<noteq> None \<and> bar_low r \<noteq> None \<and> bar_close r \<noteq> None \<and>
     bar_volume r \<noteq> None \<and> MA50 r \<noteq> None \<and> MA200 r \<noteq> None"

definition dropna :: "enriched list \<Rightarrow> enriched list" where
  "dropna rows = filter row_complete rows"

definition enrich :: "bar list \<Rightarrow> enriched list" where
  "enrich data = dropna (with_moving_averages data)"

text \<open>A downloaded bar with no NaN, and the closes of a series.\<close>

definition bar_complete :: "bar \<Rightarrow> bool" where
  "bar_complete b \<longleftrightarrow>
     bar_open b \<noteq> None \<and> bar_high b \<noteq> None \<and> bar_low b \<noteq> None \<and> bar_close b \<noteq> None \<and>
     bar_volume b \<noteq> None"

definition closes :: "bar list \<Rightarrow> price list" where
  "closes data = map (\<lambda>b. the (bar_close b)) data"

text \<open>
  The synthetic scenario of the specification (section 8): \<open>n\<close> consecutive days whose
  prices rise by 1.0 a day, with every column present.
\<close>

definition linear_series :: "nat \<Rightarrow> bar list" where
  "linear_series n =
     map (\<lambda>i. \<lparr>bar_date = 738000 + int i, bar_open = Some (real i), bar_high = Some (real i),
              bar_low = Some (real i), bar_close = Some (real i), bar_volume = Some 1000\<rparr>)
       [1..<Suc n]"

declare window_mean_def [model_simps] rolling_mean_def [model_simps]
  add_columns_def [model_simps] with_moving_averages_def [model_simps]
  row_complete_def [model_simps] dropna_def [model_simps] enrich_def [model_simps]
  bar_complete_def [model_simps] closes_def [model_simps] linear_series_def [model_simps]

section \<open>The added columns\<close>

lemma add_columns_sel [simp]:
  "bar_date (add_columns b m50 m200) = bar_date b"
  "bar_open (add_columns b m50 m200) = bar_open b"
  "bar_high (add_columns b m50 m200) = bar_high b"
  "bar_low (add_columns b m50 m200) = bar_low b"
  "bar_close (add_columns b m50 m200) = bar_close b"
  "bar_volume (add_columns b m50 m200) = bar_volume b"
  "MA50 (add_columns b m50 m200) = m50"
  "MA200 (add_columns b m50 m200) = m200"
  "bar.truncate (add_columns b m50 m200) = b"
  by (simp_all add: add_columns_def bar.defs enriched.defs)

lemma length_rolling_mean [simp]: "length (rolling_mean w xs) = length xs"
  by (simp add: rolling_mean_def)

lemma nth_rolling_mean:
  "i < length xs \<Longrightarrow>
   rolling_mean w xs ! i =
     (if Suc i < w then None else window_mean w (take w (drop (Suc i - w) xs)))"
  by (simp add: rolling_mean_def)

lemma window_mean_Some_iff: "window_mean w ws \<noteq> None \<longleftrightarrow> None \<notin> set ws"
  by (simp add: window_mean_def those_eq_None_iff)

text \<open>On a series with every close present, the rolling mean is the plain mean.\<close>

lemma nth_rolling_mean_Some:
  assumes "i < length cs" and "w \<le> Suc i"
  shows "rolling_mean w (map Some cs) ! i = Some (sum_list (take w (drop (Suc i - w) cs)) / real w)"
  using assms by (simp add: nth_rolling_mean window_mean_def take_map drop_map)

lemma length_with_moving_averages [simp]:
  "length (with_moving_averages data) = length data"
  by (simp add: with_moving_averages_def Let_def)

lemma nth_with_moving_averages:
  "i < length data \<Longrightarrow>
   with_moving_averages data ! i =
     add_columns (data ! i) (rolling_mean 50 (map bar_close data) ! i)
                            (rolling_mean 200 (map bar_close data) ! i)"
  by (simp add: with_moving_averages_def Let_def)

lemma row_complete_add_columns:
  "row_complete (add_columns b m50 m200) \<longleftrightarrow> bar_complete b \<and> m50 \<noteq> None \<and> m200 \<noteq> None"
  by (auto simp: row_complete_def bar_complete_def)

lemma closes_Some: "\<forall>b \<in> set data. bar_complete b \<Longrightarrow> map bar_close data = map Some (closes data)"
  by (auto simp: closes_def bar_complete_def)

lemma length_closes [simp]: "length (closes data) = length data"
  by (simp add: closes_def)

lemma rolling_mean_present_iff:
  "i < length cs \<Longrightarrow> rolling_mean w (map Some cs) ! i \<noteq> None \<longleftrightarrow> w \<le> Suc i"
  by (simp add: nth_rolling_mean window_mean_def take_map drop_map)

lemma row_complete_with_moving_averages:
  assumes "\<forall>b \<in> set data. bar_complete b" and "i < length data"
  shows "row_complete (with_moving_averages data ! i) \<longleftrightarrow> 199 \<le> i"
proof -
  have "bar_complete (data ! i)" using assms by simp
  moreover have "map bar_close data = map Some (closes data)"
    using assms(1) by (rule closes_Some)
  ultimately show ?thesis
    using assms(2) rolling_mean_present_iff [of i "closes data" 50]
      rolling_mean_present_iff [of i "closes data" 200]
    by (auto simp: nth_with_moving_averages row_complete_add_columns)
qed

text \<open>
  The shape of the deriver's output on a series with no NaN: exactly the rows from
  position 199 on, with their averages added.
\<close>

lemma enrich_complete_eq_drop:
  assumes "\<forall>b \<in> set data. bar_complete b"
  shows "enrich data = drop 199 (with_moving_averages data)"
  unfolding enrich_def dropna_def
  by (rule filter_eq_drop) (simp add: row_complete_with_moving_averages [OF assms])

lemma window_of_present:
  assumes "those (take w (drop s (map bar_close data))) = Some vs"
  shows "vs = take w (drop s (closes data)) \<and>
         (\<forall>j. s \<le> j \<and> j < s + w \<and> j < length data \<longrightarrow> bar_close (data ! j) \<noteq> None)"
proof
  from assms have eq: "take w (drop s (map bar_close data)) = map Some vs"
    by (simp add: those_eq_Some_iff)
  then have "map the (take w (drop s (map bar_close data))) = vs"
    by (simp add: comp_def)
  then show "vs = take w (drop s (closes data))"
    by (auto simp: closes_def take_map drop_map comp_def)
  show "\<forall>j. s \<le> j \<and> j < s + w \<and> j < length data \<longrightarrow> bar_close (data ! j) \<noteq> None"
  proof (intro allI impI)
    fix j assume j: "s \<le> j \<and> j < s + w \<and> j < length data"
    then have "take w (drop s (map bar_close data)) ! (j - s) = bar_close (data ! j)"
      by (auto simp: nth_take nth_drop)
    moreover from j have "j - s < length (take w (drop s (map bar_close data)))"
      by auto
    ultimately have "bar_close (data ! j) \<in> set (map Some vs)"
      by (metis eq nth_mem)
    then show "bar_close (data ! j) \<noteq> None" by auto
  qed
qed

lemma rolling_mean_eq_Some:
  assumes "i < length data" and "rolling_mean w (map bar_close data) ! i = Some m"
  shows "w \<le> Suc i \<and> m = sum_list (take w (drop (Suc i - w) (closes data))) / real w \<and>
         (\<forall>j. Suc i - w \<le> j \<and> j \<le> i \<longrightarrow> bar_close (data ! j) \<noteq> None)"
proof -
  from assms have w: "w \<le> Suc i"
    by (auto simp: nth_rolling_mean split: if_splits)
  with assms obtain vs where vs: "those (take w (drop (Suc i - w) (map bar_close data))) = Some vs"
    and m: "m = sum_list vs / real w"
    by (auto simp: nth_rolling_mean window_mean_def)
  from window_of_present [OF vs] w assms(1) m show ?thesis
    by auto
qed

text \<open>
  C5. On a downloaded series with no missing value, the deriver keeps exactly the bars
  from the 200th on, unchanged and in order: the first 199 rows, whose 200-day window
  is incomplete, are the only ones dropped.
\<close>

theorem enrich_keeps_suffix:
  assumes "\<forall>b \<in> set data. bar_complete b"
  shows "map bar.truncate (enrich data) = drop 199 data"
proof -
  have "map bar.truncate (with_moving_averages data) = data"
    by (rule nth_equalityI) (simp_all add: nth_with_moving_averages)
  then show ?thesis
    by (simp add: enrich_complete_eq_drop [OF assms] drop_map [symmetric])
qed


text \<open>
  C8. Each enriched row of a series with no missing value carries the trailing means
  the code asks pandas for: row \<open>k\<close> of the output is bar \<open>k + 199\<close> of the input, its
  \<^verbatim>\<open>MA50\<close> is the mean of closes \<open>k + 150 .. k + 199\<close> and its \<^verbatim>\<open>MA200\<close> the mean of
  closes \<open>k .. k + 199\<close>.
\<close>

theorem enrich_moving_averages:
  assumes "\<forall>b \<in> set data. bar_complete b" and "k < length (enrich data)"
  shows "MA50 (enrich data ! k) = Some (sum_list (take 50 (drop (k + 150) (closes data))) / 50) \<and>
         MA200 (enrich data ! k) = Some (sum_list (take 200 (drop k (closes data))) / 200)"
proof -
  have k: "k + 199 < length data"
    using assms(2) by (simp add: enrich_complete_eq_drop [OF assms(1)])
  have e: "enrich data ! k = with_moving_averages data ! (k + 199)"
    using k by (simp add: enrich_complete_eq_drop [OF assms(1)] add.commute)
  have c: "map bar_close data = map Some (closes data)"
    using assms(1) by (rule closes_Some)
  have "Suc (k + 199) - 50 = k + 150" and "Suc (k + 199) - 200 = k" by simp_all
  with k show ?thesis
    by (simp add: e c nth_with_moving_averages nth_rolling_mean_Some add.commute)
qed


text \<open>
  C9. Whatever the download holds, NaNs included, every row the deriver keeps is a
  bar at position 199 or later with no missing column, whose 200 trailing closes
  (itself included) are all present, and whose two averages are the means of the 50
  and 200 closes ending at it. A single missing close therefore removes the 200 rows
  from it on, not only its own.
\<close>

theorem enrich_row_provenance:
  assumes "r \<in> set (enrich data)"
  shows "\<exists>i. 199 \<le> i \<and> i < length data \<and> bar.truncate r = data ! i \<and> bar_complete (data ! i) \<and>
             (\<forall>j. i - 199 \<le> j \<and> j \<le> i \<longrightarrow> bar_close (data ! j) \<noteq> None) \<and>
             MA50 r = Some (sum_list (take 50 (drop (i - 49) (closes data))) / 50) \<and>
             MA200 r = Some (sum_list (take 200 (drop (i - 199) (closes data))) / 200)"
proof -
  from assms obtain i where i: "i < length data" and r: "r = with_moving_averages data ! i"
    and c: "row_complete r"
    by (auto simp: enrich_def dropna_def in_set_conv_nth)
  let ?m50 = "rolling_mean 50 (map bar_close data) ! i"
  let ?m200 = "rolling_mean 200 (map bar_close data) ! i"
  have r': "r = add_columns (data ! i) ?m50 ?m200"
    using i r by (simp add: nth_with_moving_averages)
  with c obtain m50 m200 where bc: "bar_complete (data ! i)" and
    m50: "?m50 = Some m50" and m200: "?m200 = Some m200"
    by (auto simp: row_complete_add_columns)
  from rolling_mean_eq_Some [OF i m50] rolling_mean_eq_Some [OF i m200]
  have "199 \<le> i" and "Suc i - 50 = i - 49" and "Suc i - 200 = i - 199"
    and "m50 = sum_list (take 50 (drop (i - 49) (closes data))) / 50"
    and "m200 = sum_list (take 200 (drop (i - 199) (closes data))) / 200"
    and "\<forall>j. i - 199 \<le> j \<and> j \<le> i \<longrightarrow> bar_close (data ! j) \<noteq> None"
    by auto
  with i r' bc m50 m200 show ?thesis
    by (intro exI [of _ i]) simp
qed

lemma linear_series_complete: "\<forall>b \<in> set (linear_series n). bar_complete b"
  by (simp add: linear_series_def bar_complete_def)

lemma length_linear_series [simp]: "length (linear_series n) = n"
  by (simp add: linear_series_def)

theorem enrich_keeps_suffix_witness:
  "list_all bar_complete (linear_series 250) \<and>
   map bar.truncate (enrich (linear_series 250)) = drop 199 (linear_series 250)"
  using enrich_keeps_suffix [OF linear_series_complete] linear_series_complete
  by (simp add: list_all_iff)


theorem enrich_moving_averages_witness:
  "list_all bar_complete (linear_series 250) \<and> 0 < length (enrich (linear_series 250)) \<and>
   MA50 (enrich (linear_series 250) ! 0) = Some (351 / 2) \<and>
   MA200 (enrich (linear_series 250) ! 0) = Some (201 / 2)"
proof -
  have len: "0 < length (enrich (linear_series 250))"
    using enrich_complete_eq_drop [OF linear_series_complete] by simp
  have "sum_list (take 50 (drop 150 (closes (linear_series 250)))) = 8775"
    and "sum_list (take 200 (closes (linear_series 250))) = 20100"
    by (simp_all add: closes_def linear_series_def upt_rec)
  with enrich_moving_averages [OF linear_series_complete len] len linear_series_complete
  show ?thesis by (simp add: list_all_iff)
qed

theorem enrich_row_provenance_witness:
  "enrich (linear_series 250) ! 0 \<in> set (enrich (linear_series 250)) \<and>
   (\<exists>i. 199 \<le> i \<and> i < 250 \<and>
        bar.truncate (enrich (linear_series 250) ! 0) = linear_series 250 ! i)"
proof -
  have len: "0 < length (enrich (linear_series 250))"
    using enrich_complete_eq_drop [OF linear_series_complete] by simp
  then have r: "enrich (linear_series 250) ! 0 \<in> set (enrich (linear_series 250))"
    by (rule nth_mem)
  from enrich_row_provenance [OF r] r show ?thesis by auto
qed

end
