(* ===== verification/Forecast.thy ===== *)
theory Forecast
  imports Features Calendar
begin

text \<open>
  The trend forecaster, \<^verbatim>\<open>predict_future_prices(data, days=30)\<close> of
  \<^verbatim>\<open>src/accuracy.py\<close> (lines 50--63). The training set pairs each row's date ordinal
  with its close (\<^verbatim>\<open>reset_index\<close>, \<^verbatim>\<open>map(datetime.toordinal)\<close>, \<^verbatim>\<open>X\<close>,
  \<^verbatim>\<open>y\<close>). \<^verbatim>\<open>LinearRegression().fit\<close> rejects an empty training set and a NaN target
  with \<^verbatim>\<open>ValueError\<close>; otherwise it centres both columns and solves the least-squares
  problem with \<^verbatim>\<open>lstsq\<close>, whose minimum-norm answer is slope 0 when every date is the
  same. Arithmetic is exact (reals), the idealisation of the float computation.
  The future dates are \<^verbatim>\<open>today + timedelta(days=i)\<close> for \<open>i = 1 .. days\<close>, each
  of which may overflow the calendar.
\<close>

type_synonym model = "real \<times> real"   \<comment> \<open>\<^verbatim>\<open>(coef_[0], intercept_)\<close>\<close>

definition mean :: "real list \<Rightarrow> real" where
  "mean xs = sum_list xs / real (length xs)"

definition ols_fit :: "(real \<times> real) list \<Rightarrow> model" where
  "ols_fit ps =
     (let mx = mean (map fst ps); my = mean (map snd ps);
          sxx = (\<Sum>(x, y)\<leftarrow>ps. (x - mx)\<^sup>2);
          sxy = (\<Sum>(x, y)\<leftarrow>ps. (x - mx) * (y - my));
          a = (if sxx = 0 then 0 else sxy / sxx)
      in (a, my - a * mx))"

definition linreg_fit :: "real list \<Rightarrow> price option list \<Rightarrow> model result" where
  "linreg_fit X y =
     (if X = [] then Inl (ValueError EmptyTrainingSet)
      else case those y of
             None \<Rightarrow> Inl (ValueError InputContainsNaN)
           | Some ys \<Rightarrow> Inr (ols_fit (zip X ys)))"

definition linreg_predict :: "model \<Rightarrow> real \<Rightarrow> price" where
  "linreg_predict m x = fst m * x + snd m"

definition predict_future_prices ::
    "ordinal \<Rightarrow> enriched list \<Rightarrow> int \<Rightarrow> (ordinal list \<times> price list) result" where
  "predict_future_prices today data days =
     (let X = map (\<lambda>r. real_of_int (bar_date r)) data;
          y = map bar_close data
      in res_bind (linreg_fit X y) (\<lambda>model.
           res_bind (res_map (add_days today) [1..days]) (\<lambda>future_dates.
             Inr (future_dates, map (\<lambda>d. linreg_predict model (real_of_int d)) future_dates))))"

text \<open>
  The training set of a frame whose closes are all present, and the least-squares
  objective the fit minimises.
\<close>

definition training_set :: "enriched list \<Rightarrow> (real \<times> real) list" where
  "training_set data = map (\<lambda>r. (real_of_int (bar_date r), the (bar_close r))) data"

definition sse :: "(real \<times> real) list \<Rightarrow> model \<Rightarrow> real" where
  "sse ps m = (\<Sum>(x, y)\<leftarrow>ps. (y - linreg_predict m x)\<^sup>2)"

declare mean_def [model_simps] ols_fit_def [model_simps] linreg_fit_def [model_simps]
  linreg_predict_def [model_simps] predict_future_prices_def [model_simps]
  training_set_def [model_simps]

section \<open>The fit on a valid training set\<close>

lemma linreg_fit_training_set:
  assumes "data \<noteq> []" and "\<forall>r \<in> set data. bar_close r \<noteq> None"
  shows "linreg_fit (map (\<lambda>r. real_of_int (bar_date r)) data) (map bar_close data) =
           Inr (ols_fit (training_set data))"
proof -
  have e: "map bar_close data = map Some (map (\<lambda>r. the (bar_close r)) data)"
    using assms(2) by auto
  from assms(1) show ?thesis
    unfolding linreg_fit_def training_set_def e those_map_Some
    by (simp add: zip_map_map zip_same_conv_map comp_def)
qed

lemma future_dates_Inr:
  assumes "valid_ordinal today" and "today + days \<le> MAXORDINAL"
  shows "res_map (add_days today) [1..days] = Inr (map (\<lambda>i. today + i) [1..days])"
proof (rule res_map_all_Inr)
  fix i assume "i \<in> set [1..days]"
  with assms show "add_days today i = Inr (today + i)"
    by (intro add_days_valid) auto
qed

lemma predict_future_prices_Inr:
  assumes "data \<noteq> []" and "\<forall>r \<in> set data. bar_close r \<noteq> None"
    and "valid_ordinal today" and "today + days \<le> MAXORDINAL"
  shows "predict_future_prices today data days =
           Inr (map (\<lambda>i. today + i) [1..days],
                map (\<lambda>i. linreg_predict (ols_fit (training_set data)) (real_of_int (today + i)))
                  [1..days])"
  using linreg_fit_training_set [OF assms(1,2)] future_dates_Inr [OF assms(3,4)]
  by (simp add: predict_future_prices_def)

section \<open>Least squares\<close>

lemma sum_list_centered:
  "xs \<noteq> [] \<Longrightarrow> (\<Sum>p\<leftarrow>xs. f p - mean (map f xs)) = 0"
  by (simp add: sum_list_subtractf mean_def sum_list_triv)

lemma mean_affine:
  "xs \<noteq> [] \<Longrightarrow> mean (map (\<lambda>p. m * f p + c) xs) = m * mean (map f xs) + c"
  by (simp add: mean_def sum_list_addf sum_list_const_mult sum_list_triv field_simps)

lemma sse_as_sum: "sse ps m = (\<Sum>p\<leftarrow>ps. (snd p - linreg_predict m (fst p))\<^sup>2)"
  by (simp add: sse_def case_prod_unfold)

text \<open>The normal equations: residuals sum to zero and are orthogonal to the centred dates.\<close>

lemma ols_normal_equations:
  assumes "ps \<noteq> []"
  defines "mx \<equiv> mean (map fst ps)"
  defines "r \<equiv> \<lambda>p. snd p - linreg_predict (ols_fit ps) (fst p)"
  shows "(\<Sum>p\<leftarrow>ps. r p) = 0 \<and> (\<Sum>p\<leftarrow>ps. (fst p - mx) * r p) = 0"
proof -
  define my where "my = mean (map snd ps)"
  define sxx where "sxx = (\<Sum>p\<leftarrow>ps. (fst p - mx)\<^sup>2)"
  define sxy where "sxy = (\<Sum>p\<leftarrow>ps. (fst p - mx) * (snd p - my))"
  define a where "a = (if sxx = 0 then 0 else sxy / sxx)"
  have fit: "ols_fit ps = (a, my - a * mx)"
    by (simp add: ols_fit_def a_def sxx_def sxy_def mx_def my_def Let_def case_prod_unfold)
  have r: "r p = (snd p - my) - a * (fst p - mx)" for p
    by (simp add: r_def fit linreg_predict_def algebra_simps)
  have cx: "(\<Sum>p\<leftarrow>ps. fst p - mx) = 0" and cy: "(\<Sum>p\<leftarrow>ps. snd p - my) = 0"
    using sum_list_centered [OF assms(1)] by (simp_all add: mx_def my_def)
  have "(\<Sum>p\<leftarrow>ps. r p) = (\<Sum>p\<leftarrow>ps. snd p - my) - a * (\<Sum>p\<leftarrow>ps. fst p - mx)"
    by (simp add: r sum_list_subtractf sum_list_const_mult)
  with cx cy have n1: "(\<Sum>p\<leftarrow>ps. r p) = 0" by simp
  have "(\<Sum>p\<leftarrow>ps. (fst p - mx) * r p) = sxy - a * sxx"
    by (simp add: r sxx_def sxy_def right_diff_distrib sum_list_subtractf
        sum_list_const_mult power2_eq_square mult.left_commute)
  also have "\<dots> = 0"
  proof (cases "sxx = 0")
    case True
    then have "\<And>p. p \<in> set ps \<Longrightarrow> fst p - mx = 0"
      unfolding sxx_def by (rule sum_squares_eq_0)
    then have "sxy = 0"
      unfolding sxy_def by (intro sum_list_zero_terms) simp
    with True show ?thesis by (simp add: a_def)
  next
    case False
    then show ?thesis by (simp add: a_def)
  qed
  finally show ?thesis using n1 by simp
qed

text \<open>
  C7. The line the forecaster extrapolates is the least-squares line of its training
  set: no other slope and intercept give a smaller sum of squared residuals over the
  (date ordinal, close) pairs.
\<close>

theorem ols_fit_least_squares:
  assumes "ps \<noteq> []"
  shows "sse ps (ols_fit ps) \<le> sse ps m"
proof -
  obtain a b where fit: "ols_fit ps = (a, b)" by (cases "ols_fit ps")
  obtain a' b' where m: "m = (a', b')" by (cases m)
  define mx where "mx = mean (map fst ps)"
  define r where "r = (\<lambda>p. snd p - linreg_predict (ols_fit ps) (fst p))"
  define g where "g = (a - a') * mx + (b - b')"
  define t where "t = (\<lambda>p :: real \<times> real. (a - a') * (fst p - mx) + g)"
  have ne: "(\<Sum>p\<leftarrow>ps. r p) = 0" "(\<Sum>p\<leftarrow>ps. (fst p - mx) * r p) = 0"
    using ols_normal_equations [OF assms] by (simp_all add: r_def mx_def)
  have each: "(snd p - linreg_predict m (fst p))\<^sup>2 =
                (r p)\<^sup>2 + (2 * (a - a')) * ((fst p - mx) * r p) + (2 * g) * r p + (t p)\<^sup>2" for p
    by (simp add: r_def t_def g_def fit m linreg_predict_def power2_eq_square algebra_simps)
  have "sse ps m = (\<Sum>p\<leftarrow>ps. (r p)\<^sup>2) + (2 * (a - a')) * (\<Sum>p\<leftarrow>ps. (fst p - mx) * r p)
                   + (2 * g) * (\<Sum>p\<leftarrow>ps. r p) + (\<Sum>p\<leftarrow>ps. (t p)\<^sup>2)"
    by (simp add: sse_as_sum each sum_list_addf sum_list_const_mult)
  also have "\<dots> = (\<Sum>p\<leftarrow>ps. (r p)\<^sup>2) + (\<Sum>p\<leftarrow>ps. (t p)\<^sup>2)"
    by (simp add: ne)
  also have "(\<Sum>p\<leftarrow>ps. (r p)\<^sup>2) = sse ps (ols_fit ps)"
    by (simp add: sse_as_sum r_def)
  finally have "sse ps m = sse ps (ols_fit ps) + (\<Sum>p\<leftarrow>ps. (t p)\<^sup>2)" .
  moreover have "0 \<le> (\<Sum>p\<leftarrow>ps. (t p)\<^sup>2)"
    by (rule sum_list_nonneg) auto
  ultimately show ?thesis by simp
qed

text \<open>
  The fit recovers a trend that is exactly linear: when the closes lie on the line
  \<open>m * ordinal + c\<close> and the series spans at least two dates, the fitted slope and
  intercept are \<open>m\<close> and \<open>c\<close>.
\<close>

lemma ols_fit_exact:
  assumes line: "\<forall>p \<in> set ps. snd p = m * fst p + c"
    and spread: "p \<in> set ps" "q \<in> set ps" "fst p \<noteq> fst q"
  shows "ols_fit ps = (m, c)"
proof -
  have ne: "ps \<noteq> []" using spread by auto
  define mx where "mx = mean (map fst ps)"
  define sxx where "sxx = (\<Sum>p\<leftarrow>ps. (fst p - mx)\<^sup>2)"
  have ys: "map snd ps = map (\<lambda>p. m * fst p + c) ps"
    using line by simp
  have my: "mean (map snd ps) = m * mx + c"
    by (simp add: ys mean_affine [OF ne] mx_def comp_def)
  have sxy: "(\<Sum>p\<leftarrow>ps. (fst p - mx) * (snd p - mean (map snd ps))) = m * sxx"
  proof -
    have "(\<Sum>p\<leftarrow>ps. (fst p - mx) * (snd p - mean (map snd ps))) = (\<Sum>p\<leftarrow>ps. m * (fst p - mx)\<^sup>2)"
      using line by (intro arg_cong [where f = sum_list] map_cong)
        (auto simp: my power2_eq_square algebra_simps)
    then show ?thesis by (simp add: sxx_def sum_list_const_mult)
  qed
  have "sxx \<noteq> 0"
  proof
    assume "sxx = 0"
    then have z: "\<And>u. u \<in> set ps \<Longrightarrow> fst u - mx = 0"
      unfolding sxx_def by (rule sum_squares_eq_0)
    from z [OF spread(1)] z [OF spread(2)] spread(3) show False by simp
  qed
  with sxy my show ?thesis
    by (simp add: ols_fit_def Let_def case_prod_unfold mx_def sxx_def)
qed
section \<open>The forecast\<close>

lemma upto_from_1: "length [1..days] = nat days" "k < nat days \<Longrightarrow> [1..days] ! k = 1 + int k"
  by (simp_all add: nth_upto)

text \<open>
  C10. On a non-empty frame with every close present and a horizon inside the
  calendar, the forecaster returns \<open>days\<close> dates, today + 1 to today + \<open>days\<close>, and
  for each the value of the fitted line at its ordinal.
\<close>

theorem predict_future_prices_shape:
  assumes "data \<noteq> []" and "\<forall>r \<in> set data. bar_close r \<noteq> None"
    and "valid_ordinal today" and "today + days \<le> MAXORDINAL"
  shows "\<exists>dates prices. predict_future_prices today data days = Inr (dates, prices) \<and>
           length dates = nat days \<and> length prices = nat days \<and>
           (\<forall>k < nat days. dates ! k = today + 1 + int k \<and>
              prices ! k = linreg_predict (ols_fit (training_set data)) (real_of_int (dates ! k)))"
  using predict_future_prices_Inr [OF assms] by (simp add: upto_from_1)



text \<open>
  C22. A horizon that runs past 9999-12-31 makes the forecaster raise
  \<^verbatim>\<open>OverflowError\<close> from the date arithmetic, after the fit.
\<close>

theorem predict_future_prices_overflow:
  assumes "data \<noteq> []" and "\<forall>r \<in> set data. bar_close r \<noteq> None"
    and "valid_ordinal today" and "1 \<le> days" and "MAXORDINAL < today + days"
  shows "predict_future_prices today data days = Inl OverflowError"
proof -
  have "days \<in> set [1..days]" and "add_days today days = Inl OverflowError"
    using assms(4,5) by (simp_all add: add_days_def valid_ordinal_def)
  from res_map_Inl [where f = "add_days today", OF this] have "res_map (add_days today) [1..days] = Inl OverflowError"
    by (auto simp: add_days_Inl_iff)
  then show ?thesis
    using linreg_fit_training_set [OF assms(1,2)] by (simp add: predict_future_prices_def)
qed

text \<open>
  C20. A frame of a single row is fitted without error: the slope is 0 and every
  forecast price is that row's close. The specification asks for an
  \<open>InsufficientData\<close> failure below two points.
\<close>

theorem predict_single_bar:
  assumes "bar_close r = Some c" and "valid_ordinal today" and "today + days \<le> MAXORDINAL"
  shows "predict_future_prices today [r] days =
           Inr (map (\<lambda>i. today + i) [1..days], replicate (nat days) c)"
proof -
  have "ols_fit (training_set [r]) = (0, c)"
    using assms(1) by (simp add: ols_fit_def training_set_def mean_def)
  then show ?thesis
    using predict_future_prices_Inr [of "[r]"] assms
    by (simp add: linreg_predict_def map_replicate_const upto_from_1)
qed


lemma valid_ordinal_739000: "valid_ordinal 739000"
  by (simp add: valid_ordinal_def MAXORDINAL_def)

theorem ols_fit_least_squares_witness:
  "[(0, 1), (1, 3), (2, 2)] \<noteq> [] \<and>
   sse [(0, 1), (1, 3), (2, 2)] (ols_fit [(0, 1), (1, 3), (2, 2)]) \<le> sse [(0, 1), (1, 3), (2, 2)] (0, 2)"
  using ols_fit_least_squares [of "[(0, 1), (1, 3), (2, 2)]" "(0, 2)"] by simp

theorem predict_future_prices_shape_witness:
  "[\<lparr>bar_date = 738999, bar_open = Some 5, bar_high = Some 5, bar_low = Some 5,
      bar_close = Some 5, bar_volume = Some 1000, MA50 = Some 5, MA200 = Some 5\<rparr>] \<noteq> [] \<and> list_all (\<lambda>r. bar_close r \<noteq> None) [\<lparr>bar_date = 738999, bar_open = Some 5, bar_high = Some 5, bar_low = Some 5,
      bar_close = Some 5, bar_volume = Some 1000, MA50 = Some 5, MA200 = Some 5\<rparr>] \<and>
   valid_ordinal 739000 \<and> 739000 + 30 \<le> MAXORDINAL \<and>
   (\<exists>dates prices. predict_future_prices 739000 [\<lparr>bar_date = 738999, bar_open = Some 5, bar_high = Some 5, bar_low = Some 5,
      bar_close = Some 5, bar_volume = Some 1000, MA50 = Some 5, MA200 = Some 5\<rparr>] 30 = Inr (dates, prices) \<and>
      length dates = 30 \<and> length prices = 30 \<and> dates ! 0 = 739001)"
proof -
  have m: "739000 + 30 \<le> MAXORDINAL" by (simp add: MAXORDINAL_def)
  have c: "\<forall>r \<in> set [\<lparr>bar_date = 738999, bar_open = Some 5, bar_high = Some 5, bar_low = Some 5,
      bar_close = Some 5, bar_volume = Some 1000, MA50 = Some 5, MA200 = Some 5\<rparr>]. bar_close r \<noteq> None" by simp
  from predict_future_prices_shape [OF _ c valid_ordinal_739000 m] c m valid_ordinal_739000
  show ?thesis by (fastforce simp: list_all_iff)
qed


theorem predict_future_prices_overflow_witness:
  "[\<lparr>bar_date = 738999, bar_open = Some 5, bar_high = Some 5, bar_low = Some 5,
      bar_close = Some 5, bar_volume = Some 1000, MA50 = Some 5, MA200 = Some 5\<rparr>] \<noteq> [] \<and> list_all (\<lambda>r. bar_close r \<noteq> None) [\<lparr>bar_date = 738999, bar_open = Some 5, bar_high = Some 5, bar_low = Some 5,
      bar_close = Some 5, bar_volume = Some 1000, MA50 = Some 5, MA200 = Some 5\<rparr>] \<and>
   valid_ordinal 3652050 \<and> (1::int) \<le> 30 \<and> MAXORDINAL < 3652050 + 30 \<and>
   predict_future_prices 3652050 [\<lparr>bar_date = 738999, bar_open = Some 5, bar_high = Some 5, bar_low = Some 5,
      bar_close = Some 5, bar_volume = Some 1000, MA50 = Some 5, MA200 = Some 5\<rparr>] 30 = Inl OverflowError"
proof -
  have v: "valid_ordinal 3652050" and m: "MAXORDINAL < 3652050 + 30"
    by (simp_all add: valid_ordinal_def MAXORDINAL_def)
  have c: "\<forall>r \<in> set [\<lparr>bar_date = 738999, bar_open = Some 5, bar_high = Some 5, bar_low = Some 5,
      bar_close = Some 5, bar_volume = Some 1000, MA50 = Some 5, MA200 = Some 5\<rparr>]. bar_close r \<noteq> None" by simp
  from predict_future_prices_overflow [OF _ c v _ m] c v m show ?thesis
    by (simp add: list_all_iff)
qed

theorem predict_single_bar_witness:
  "bar_close \<lparr>bar_date = 738999, bar_open = Some 5, bar_high = Some 5, bar_low = Some 5,
      bar_close = Some 5, bar_volume = Some 1000, MA50 = Some 5, MA200 = Some 5\<rparr> = Some 5 \<and> valid_ordinal 739000 \<and> 739000 + 30 \<le> MAXORDINAL \<and>
   predict_future_prices 739000 [\<lparr>bar_date = 738999, bar_open = Some 5, bar_high = Some 5, bar_low = Some 5,
      bar_close = Some 5, bar_volume = Some 1000, MA50 = Some 5, MA200 = Some 5\<rparr>] 30 =
     Inr (map (\<lambda>i. 739000 + i) [1..30], replicate 30 5)"
proof -
  have m: "739000 + 30 \<le> MAXORDINAL" by (simp add: MAXORDINAL_def)
  have c: "bar_close \<lparr>bar_date = 738999, bar_open = Some 5, bar_high = Some 5, bar_low = Some 5,
      bar_close = Some 5, bar_volume = Some 1000, MA50 = Some 5, MA200 = Some 5\<rparr> = Some 5" by simp
  from predict_single_bar [OF c valid_ordinal_739000 m] m show ?thesis
    by (simp add: valid_ordinal_739000)
qed

end
