(* ===== verification/Ledger.thy ===== *)
theory Ledger
  imports Calendar
begin

text \<open>
  The prediction ledger of \<^verbatim>\<open>src/accuracy.py\<close>: \<^verbatim>\<open>save_predictions\<close> (lines
  114--139) and \<^verbatim>\<open>display_previous_predictions\<close> (lines 141--163) over the file
  \<^verbatim>\<open>predictions.csv\<close> (line 32).

  The file is a value of \<open>csv_file\<close>: missing, a table of rows with the columns
  \<^verbatim>\<open>Date, Ticker, Predicted_Price\<close>, or present but empty, which
  \<^verbatim>\<open>pandas.read_csv\<close> refuses with \<^verbatim>\<open>EmptyDataError\<close>. \<^verbatim>\<open>to_csv\<close> followed by
  \<^verbatim>\<open>read_csv\<close> gives back the rows written: dates are the \<^verbatim>\<open>YYYY-MM-DD\<close> strings the
  code writes and pandas keeps them as strings, tickers are strings, prices are read
  back as the floats written (exact reals here).

  \<^verbatim>\<open>save_predictions\<close> tests \<^verbatim>\<open>not future_dates or not future_prices\<close>; the prices
  are the numpy array \<^verbatim>\<open>model.predict\<close> returns, whose truth value
  (\<^verbatim>\<open>ndarray.__bool__\<close>) is that of its element when it has exactly one and a
  \<^verbatim>\<open>ValueError\<close> otherwise (NumPy 2.2 and later also for an empty array).
\<close>

record pred_row =
  row_date :: string
  row_ticker :: ticker
  row_price :: price

datatype csv_file = NoFile | CsvTable "pred_row list" | CsvEmptyFile

definition read_csv :: "csv_file \<Rightarrow> pred_row list result" where
  "read_csv f =
     (case f of
        NoFile \<Rightarrow> Inl FileNotFoundError
      | CsvEmptyFile \<Rightarrow> Inl EmptyDataError
      | CsvTable rows \<Rightarrow> Inr rows)"

definition np_truth :: "price list \<Rightarrow> bool result" where
  "np_truth a = (case a of [x] \<Rightarrow> Inr (x \<noteq> 0) | _ \<Rightarrow> Inl (ValueError AmbiguousTruthValue))"

text \<open>The rows \<^verbatim>\<open>pd.DataFrame({'Date': ..., 'Ticker': ..., 'Predicted_Price': ...})\<close> builds.\<close>

definition new_predictions :: "ticker \<Rightarrow> ordinal list \<Rightarrow> price list \<Rightarrow> pred_row list result" where
  "new_predictions ticker future_dates future_prices =
     (if length future_dates \<noteq> length future_prices then Inl (ValueError ArrayLengthMismatch)
      else Inr (map2 (\<lambda>d p. \<lparr>row_date = date_str d, row_ticker = ticker, row_price = p\<rparr>)
                  future_dates future_prices))"

definition save_predictions ::
    "ticker \<Rightarrow> ordinal list \<Rightarrow> price list \<Rightarrow> csv_file \<Rightarrow> csv_file result" where
  "save_predictions ticker future_dates future_prices f =
     (if future_dates = [] then Inr f
      else res_bind (np_truth future_prices) (\<lambda>b.
        if \<not> b then Inr f
        else res_bind
               (case read_csv f of
                  Inl e \<Rightarrow> (if e = FileNotFoundError then Inr [] else Inl e)
                | Inr rows \<Rightarrow> Inr rows)
               (\<lambda>predictions_df.
                  res_bind (new_predictions ticker future_dates future_prices) (\<lambda>new.
                    Inr (CsvTable (predictions_df @ new))))))"

text \<open>
  \<^verbatim>\<open>f"{x:.2f}"\<close>: the value times 100 rounded half to even, printed with two
  decimals and the sign of the value.
\<close>

definition round_half_even :: "real \<Rightarrow> int" where
  "round_half_even x =
     (let f = \<lfloor>x\<rfloor>; d = x - of_int f
      in if d < 1/2 then f else if 1/2 < d then f + 1 else if even f then f else f + 1)"

definition fmt_2f :: "price \<Rightarrow> string" where
  "fmt_2f x =
     (let n = nat (round_half_even (\<bar>x\<bar> * 100))
      in (if x < 0 then ''-'' else '''') @ nat_str (n div 100) @ ''.'' @ zpad 2 (n mod 100))"

definition NL :: string where
  "NL = [CHR 0x0A]"

definition NO_PREVIOUS :: string where
  "NO_PREVIOUS = ''No previous predictions found.''"

definition prediction_line :: "pred_row \<Rightarrow> string" where
  "prediction_line r = row_date r @ '': '' @ fmt_2f (row_price r) @ '' INR'' @ NL"

definition display_previous_predictions :: "ticker \<Rightarrow> csv_file \<Rightarrow> string result" where
  "display_previous_predictions ticker f =
     (case read_csv f of
        Inl e \<Rightarrow> (if e = FileNotFoundError then Inr NO_PREVIOUS else Inl e)
      | Inr predictions_df \<Rightarrow>
          (let company_predictions = filter (\<lambda>r. row_ticker r = ticker) predictions_df
           in if company_predictions = [] then Inr NO_PREVIOUS
              else Inr (''Previous Predictions:'' @ NL @ NL
                        @ concat (map prediction_line company_predictions))))"

text \<open>
  The ledger's contract in the specification (section 4.4): \<open>query\<close> returns the
  stored records of a ticker in storage order, and an empty sequence when the store
  does not exist.
\<close>

definition query :: "ticker \<Rightarrow> csv_file \<Rightarrow> pred_row list" where
  "query ticker f =
     (case f of CsvTable rows \<Rightarrow> filter (\<lambda>r. row_ticker r = ticker) rows | _ \<Rightarrow> [])"

declare read_csv_def [model_simps] np_truth_def [model_simps] new_predictions_def [model_simps]
  save_predictions_def [model_simps] round_half_even_def [model_simps] fmt_2f_def [model_simps]
  NL_def [model_simps] NO_PREVIOUS_def [model_simps] prediction_line_def [model_simps]
  display_previous_predictions_def [model_simps] query_def [model_simps]

section \<open>Saving\<close>

lemma np_truth_single: "np_truth [x] = Inr (x \<noteq> 0)"
  by (simp add: np_truth_def)

lemma np_truth_ambiguous: "length a \<noteq> 1 \<Longrightarrow> np_truth a = Inl (ValueError AmbiguousTruthValue)"
  by (cases a rule: remdups_adj.cases) (simp_all add: np_truth_def)

lemma save_predictions_cases:
  "save_predictions ticker ds ps f = Inr f' \<Longrightarrow>
     f' = f \<or>
     (\<exists>p rows new. ps = [p] \<and> p \<noteq> 0 \<and> ds \<noteq> [] \<and>
        (f = NoFile \<and> rows = [] \<or> f = CsvTable rows) \<and>
        new_predictions ticker ds ps = Inr new \<and> f' = CsvTable (rows @ new))"
  by (auto simp: save_predictions_def np_truth_def read_csv_def res_bind_eq_Inr_iff
      split: list.splits if_splits csv_file.splits sum.splits)

section \<open>Properties of the ledger\<close>

lemma query_append_rows:
  "query t (CsvTable (rows @ new)) = query t (CsvTable rows) @ filter (\<lambda>r. row_ticker r = t) new"
  by (simp add: query_def)

lemma round_half_even_nat [simp]: "round_half_even (real n) = int n"
  by (simp add: round_half_even_def)

text \<open>
  C3. \<^verbatim>\<open>save_predictions\<close> raises \<^verbatim>\<open>ValueError\<close> before it reads or writes the
  file whenever there is at least one date and the price array does not have exactly
  one element: \<^verbatim>\<open>not future_prices\<close> asks numpy for the truth value of the array.
  The 30-day forecast the handler passes always takes this path, so nothing is ever
  saved.
\<close>

theorem save_predictions_ambiguous:
  assumes "future_dates \<noteq> []" and "length future_prices \<noteq> 1"
  shows "save_predictions ticker future_dates future_prices f = Inl (ValueError AmbiguousTruthValue)"
  using assms by (simp add: save_predictions_def np_truth_ambiguous)

text \<open>
  C14. The ledger's round trip, on the one input shape for which the code writes (one
  date and one non-zero price): afterwards the ticker's records are its earlier ones
  followed by the new record, in storage order, and every other ticker's records are
  unchanged.
\<close>

theorem save_then_query:
  assumes "save_predictions ticker [d] [p] f = Inr f'" and "p \<noteq> 0"
  shows "query ticker f' =
           query ticker f @ [\<lparr>row_date = date_str d, row_ticker = ticker, row_price = p\<rparr>] \<and>
         (\<forall>t. t \<noteq> ticker \<longrightarrow> query t f' = query t f)"
proof (cases f)
  case NoFile
  with assms show ?thesis
    by (auto simp: save_predictions_def np_truth_def read_csv_def new_predictions_def query_def)
next
  case (CsvTable rows)
  with assms show ?thesis
    by (auto simp: save_predictions_def np_truth_def read_csv_def new_predictions_def query_def)
next
  case CsvEmptyFile
  with assms show ?thesis
    by (simp add: save_predictions_def np_truth_def read_csv_def)
qed

text \<open>
  C15. \<^verbatim>\<open>display_previous_predictions\<close> implements the specification's
  \<open>query\<close>: on a missing file or a table it shows "No previous predictions found."
  when the ticker has no record, and otherwise one line per record of the ticker, in
  storage order.
\<close>

theorem display_previous_predictions_refines_query:
  assumes "f \<noteq> CsvEmptyFile"
  shows "display_previous_predictions ticker f =
           Inr (if query ticker f = [] then NO_PREVIOUS
                else ''Previous Predictions:'' @ NL @ NL @ concat (map prediction_line (query ticker f)))"
  using assms by (cases f) (simp_all add: display_previous_predictions_def read_csv_def query_def)



theorem save_predictions_ambiguous_witness:
  "[738000, 738001] \<noteq> [] \<and> length [1, 2::real] \<noteq> 1 \<and>
   save_predictions ''TCS.NS'' [738000, 738001] [1, 2] NoFile = Inl (ValueError AmbiguousTruthValue)"
  using save_predictions_ambiguous [of "[738000, 738001]" "[1, 2]" "''TCS.NS''" NoFile] by simp

theorem save_then_query_witness:
  "save_predictions ''TCS.NS'' [738000] [5] NoFile =
     Inr (CsvTable [\<lparr>row_date = date_str 738000, row_ticker = ''TCS.NS'', row_price = 5\<rparr>]) \<and>
   (5::real) \<noteq> 0 \<and>
   query ''TCS.NS'' (CsvTable [\<lparr>row_date = date_str 738000, row_ticker = ''TCS.NS'', row_price = 5\<rparr>]) =
     query ''TCS.NS'' NoFile @ [\<lparr>row_date = date_str 738000, row_ticker = ''TCS.NS'', row_price = 5\<rparr>]"
proof -
  have s: "save_predictions ''TCS.NS'' [738000] [5] NoFile =
     Inr (CsvTable [\<lparr>row_date = date_str 738000, row_ticker = ''TCS.NS'', row_price = 5\<rparr>])"
    by (simp add: save_predictions_def np_truth_def read_csv_def new_predictions_def)
  from save_then_query [OF s] s show ?thesis by simp
qed

theorem display_previous_predictions_refines_query_witness:
  "NoFile \<noteq> CsvEmptyFile \<and> display_previous_predictions ''INFY.NS'' NoFile = Inr NO_PREVIOUS"
  using display_previous_predictions_refines_query [of NoFile "''INFY.NS''"]
  by (simp add: query_def)

end
