(* ===== verification/App.thy ===== *)
theory App
  imports Companies DateRange Forecast Ledger
begin

text \<open>
  The click handler of \<^verbatim>\<open>src/accuracy.py\<close>: \<^verbatim>\<open>plot_stock_data\<close> (lines 65--112) and
  \<^verbatim>\<open>on_plot_button_click\<close> (lines 165--206), with the window state they change.

  \<^item> \<open>app_state\<close> holds what the handler changes: the figure shown in
    \<^verbatim>\<open>plot_frame\<close>, the text of \<^verbatim>\<open>prediction_label\<close>, the file
    \<^verbatim>\<open>predictions.csv\<close>, the number of figures \<^verbatim>\<open>plt.subplots\<close> has created (none
    is ever closed) and the figure whose axis \<^verbatim>\<open>global_ax\<close> refers to.
  \<^item> The download \<^verbatim>\<open>yf.download(ticker, start, end)\<close> is the parameter \<open>fetch\<close>, an
    arbitrary function of the ticker and the two date strings.
  \<^item> The three calls of \<^verbatim>\<open>datetime.today()\<close> (lines 67, 39, 59, in this order) are the
    readings \<open>t_end\<close>, \<open>t_start\<close>, \<open>t_pred\<close>.
  \<^item> An exception escapes the Tk callback, which reports it and keeps running: the
    handler returns the state reached when it was raised and the exception.
  The plotting calls, the canvas, toolbar and \<^verbatim>\<open>SpanSelector\<close> draw but keep no state
  the program reads, and are not modelled.
\<close>

record figure =
  fig_id :: nat
  fig_title :: string
  fig_series :: "enriched list"
  fig_forecast :: "ordinal list \<times> price list"

record app_state =
  plot_frame :: "figure option"
  prediction_label :: string
  predictions_csv :: csv_file
  open_figures :: nat
  global_ax :: "nat option"

type_synonym fetcher = "ticker \<Rightarrow> string \<Rightarrow> string \<Rightarrow> bar list"

definition init_state :: "csv_file \<Rightarrow> app_state" where
  "init_state f =
     \<lparr>plot_frame = None, prediction_label = '''', predictions_csv = f,
      open_figures = 0, global_ax = None\<rparr>"

definition plot_title :: "ticker \<Rightarrow> string \<Rightarrow> string" where
  "plot_title ticker duration =
     ticker @ '' Stock Price and Moving Averages ('' @ duration @ '')''"

definition plot_stock_data ::
    "fetcher \<Rightarrow> ticker \<Rightarrow> string \<Rightarrow> ordinal \<Rightarrow> ordinal \<Rightarrow> ordinal \<Rightarrow> app_state \<Rightarrow>
     app_state \<times> (figure \<times> ordinal list \<times> price list) option result" where
  "plot_stock_data fetch ticker duration t_end t_start t_pred s =
     (let end_date = date_str t_end
      in case get_start_date t_start duration of
           Inl e \<Rightarrow> (s, Inl e)
         | Inr start_date \<Rightarrow>
             (let data = fetch ticker start_date end_date
              in if data = [] then (s, Inr None)
                 else
                   (let rows = enrich data;
                        n = open_figures s;
                        s' = s\<lparr>open_figures := Suc n, global_ax := Some n\<rparr>
                    in case predict_future_prices t_pred rows 30 of
                         Inl e \<Rightarrow> (s', Inl e)
                       | Inr (future_dates, future_prices) \<Rightarrow>
                           (s', Inr (Some (\<lparr>fig_id = n, fig_title = plot_title ticker duration,
                                           fig_series = rows,
                                           fig_forecast = (future_dates, future_prices)\<rparr>,
                                         future_dates, future_prices))))))"

definition forecast_text :: "ordinal list \<Rightarrow> price list \<Rightarrow> string" where
  "forecast_text future_dates future_prices =
     ''Predicted Prices for Next 30 Days:'' @ NL @ NL @
     concat (map2 (\<lambda>d p. date_str d @ '': '' @ fmt_2f p @ '' INR'' @ NL) future_dates future_prices)"

definition on_plot_button_click ::
    "fetcher \<Rightarrow> string \<Rightarrow> string \<Rightarrow> ordinal \<Rightarrow> ordinal \<Rightarrow> ordinal \<Rightarrow> app_state \<Rightarrow>
     app_state \<times> py_exc option" where
  "on_plot_button_click fetch company duration t_end t_start t_pred s =
     (case companies_get company of
        None \<Rightarrow> (s, None)
      | Some ticker \<Rightarrow>
          (case plot_stock_data fetch ticker duration t_end t_start t_pred s of
             (s1, Inl e) \<Rightarrow> (s1, Some e)
           | (s1, Inr None) \<Rightarrow> (s1, None)
           | (s1, Inr (Some (fig, future_dates, future_prices))) \<Rightarrow>
               (let s2 = s1\<lparr>plot_frame := Some fig,
                            prediction_label := forecast_text future_dates future_prices\<rparr>
                in case save_predictions ticker future_dates future_prices (predictions_csv s2) of
                     Inl e \<Rightarrow> (s2, Some e)
                   | Inr f \<Rightarrow>
                       (let s3 = s2\<lparr>predictions_csv := f\<rparr>
                        in case display_previous_predictions ticker f of
                             Inl e \<Rightarrow> (s3, Some e)
                           | Inr txt \<Rightarrow> (s3\<lparr>prediction_label := txt\<rparr>, None)))))"

text \<open>
  The event loop: any number of clicks, each with whatever the comboboxes hold, whatever
  the download returns and a clock that does not run backwards, starting from the window
  as created with the ledger file \<open>f0\<close> left by earlier runs.
\<close>

inductive app_step :: "app_state \<Rightarrow> app_state \<Rightarrow> bool" where
  click: "on_plot_button_click fetch company duration t_end t_start t_pred s = (s', r) \<Longrightarrow>
          t_end \<le> t_start \<Longrightarrow> t_start \<le> t_pred \<Longrightarrow> app_step s s'"

inductive reachable :: "csv_file \<Rightarrow> app_state \<Rightarrow> bool" for f0 :: csv_file where
  init: "reachable f0 (init_state f0)"
| step: "reachable f0 s \<Longrightarrow> app_step s s' \<Longrightarrow> reachable f0 s'"

inductive_cases app_stepE: "app_step s s'"

declare init_state_def [model_simps] plot_title_def [model_simps]
  plot_stock_data_def [model_simps] forecast_text_def [model_simps]
  on_plot_button_click_def [model_simps]

section \<open>The handler's paths\<close>

lemma predict_future_prices_lengths:
  "predict_future_prices t data days = Inr (fd, fp) \<Longrightarrow> length fd = nat days \<and> length fp = nat days"
  by (auto simp: predict_future_prices_def Let_def res_bind_eq_Inr_iff dest!: res_map_length)

lemma plot_stock_data_csv:
  "plot_stock_data fetch ticker duration t_end t_start t_pred s = (s', r) \<Longrightarrow>
   predictions_csv s' = predictions_csv s \<and> prediction_label s' = prediction_label s \<and>
   plot_frame s' = plot_frame s"
  by (auto simp: plot_stock_data_def Let_def split: sum.splits if_splits prod.splits)

lemma plot_stock_data_forecast:
  "plot_stock_data fetch ticker duration t_end t_start t_pred s = (s', Inr (Some (fig, fd, fp))) \<Longrightarrow>
   fd \<noteq> [] \<and> length fp = 30"
  by (auto simp: plot_stock_data_def Let_def split: sum.splits if_splits prod.splits
      dest!: predict_future_prices_lengths)

lemma save_predictions_forecast:
  "fd \<noteq> [] \<Longrightarrow> length fp = 30 \<Longrightarrow>
   save_predictions ticker fd fp f = Inl (ValueError AmbiguousTruthValue)"
  by (simp add: save_predictions_def np_truth_ambiguous)

lemma click_effect:
  assumes "on_plot_button_click fetch company duration t_end t_start t_pred s = (s', r)"
  shows "predictions_csv s' = predictions_csv s \<and>
         (prediction_label s' = prediction_label s \<or>
          (\<exists>fd fp. prediction_label s' = forecast_text fd fp))"
proof (cases "companies_get company")
  case None
  with assms show ?thesis by (simp add: on_plot_button_click_def)
next
  case (Some ticker)
  obtain s1 res where p: "plot_stock_data fetch ticker duration t_end t_start t_pred s = (s1, res)"
    by (cases "plot_stock_data fetch ticker duration t_end t_start t_pred s")
  note frame = plot_stock_data_csv [OF p]
  show ?thesis
  proof (cases res)
    case (Inl e)
    with assms Some p frame show ?thesis by (simp add: on_plot_button_click_def)
  next
    case (Inr res_opt)
    show ?thesis
    proof (cases res_opt)
      case None
      with assms Some p Inr frame show ?thesis by (simp add: on_plot_button_click_def)
    next
      case (Some x)
      then obtain fig fd fp where x: "x = (fig, fd, fp)" by (cases x) auto
      from plot_stock_data_forecast [of fetch ticker duration t_end t_start t_pred s s1 fig fd fp]
        p Inr Some x
      have "fd \<noteq> []" and "length fp = 30" by auto
      with assms \<open>companies_get company = Some ticker\<close> p Inr Some x
      have "s' = s1\<lparr>plot_frame := Some fig, prediction_label := forecast_text fd fp\<rparr>"
        by (simp add: on_plot_button_click_def save_predictions_forecast)
      with frame show ?thesis by force
    qed
  qed
qed

text \<open>A click that draws a forecast, as a reachable state of the event loop.\<close>

lemma reachable_forecast_click:
  "reachable NoFile (fst (on_plot_button_click (\<lambda>_ _ _. linear_series 250) ''Infosys'' ''1 year''
      739000 739000 739000 (init_state NoFile)))"
proof -
  have "app_step (init_state NoFile) (fst (on_plot_button_click (\<lambda>_ _ _. linear_series 250) ''Infosys'' ''1 year''
      739000 739000 739000 (init_state NoFile)))"
    by (rule app_step.click [where fetch = "\<lambda>_ _ _. linear_series 250" and company = "''Infosys''"
          and duration = "''1 year''" and t_end = 739000 and t_start = 739000 and t_pred = 739000
          and r = "snd (on_plot_button_click (\<lambda>_ _ _. linear_series 250) ''Infosys'' ''1 year''
      739000 739000 739000 (init_state NoFile))"]) simp_all
  then show ?thesis
    by (rule reachable.step [OF reachable.init])
qed

section \<open>The event loop\<close>

text \<open>
  C1. In every state the running program reaches, \<^verbatim>\<open>predictions.csv\<close> is the file
  it started with: no click, whatever it selects, downloads or raises, changes the
  ledger. A forecast always reaches \<^verbatim>\<open>save_predictions\<close> with 30 prices, which
  raises before writing; the other paths never call it.
\<close>

theorem reachable_ledger_unchanged:
  assumes "reachable f0 s"
  shows "predictions_csv s = f0"
  using assms
proof (induction rule: reachable.induct)
  case init
  then show ?case by (simp add: init_state_def)
next
  case (step s s')
  then show ?case by (auto elim!: app_stepE dest: click_effect)
qed

text \<open>
  C16. In every reachable state the prediction label is empty (as created) or shows a
  fresh forecast: \<^verbatim>\<open>display_previous_predictions\<close> is never reached, so earlier
  predictions are never shown.
\<close>

theorem reachable_label_is_forecast:
  assumes "reachable f0 s"
  shows "prediction_label s = '''' \<or> (\<exists>fd fp. prediction_label s = forecast_text fd fp)"
  using assms
proof (induction rule: reachable.induct)
  case init
  then show ?case by (simp add: init_state_def)
next
  case (step s s')
  from step.hyps(2) obtain fetch company duration t_end t_start t_pred r where
    "on_plot_button_click fetch company duration t_end t_start t_pred s = (s', r)"
    by (cases rule: app_stepE) blast
  then have "prediction_label s' = prediction_label s \<or>
             (\<exists>fd fp. prediction_label s' = forecast_text fd fp)"
    by (rule conjunct2 [OF click_effect])
  with step.IH show ?case by force
qed

theorem reachable_ledger_unchanged_witness:
  "reachable NoFile (fst (on_plot_button_click (\<lambda>_ _ _. linear_series 250) ''Infosys'' ''1 year''
      739000 739000 739000 (init_state NoFile))) \<and> predictions_csv (fst (on_plot_button_click (\<lambda>_ _ _. linear_series 250) ''Infosys'' ''1 year''
      739000 739000 739000 (init_state NoFile))) = NoFile"
  using reachable_ledger_unchanged [OF reachable_forecast_click] reachable_forecast_click by simp

theorem reachable_label_is_forecast_witness:
  "reachable NoFile (fst (on_plot_button_click (\<lambda>_ _ _. linear_series 250) ''Infosys'' ''1 year''
      739000 739000 739000 (init_state NoFile))) \<and>
   (prediction_label (fst (on_plot_button_click (\<lambda>_ _ _. linear_series 250) ''Infosys'' ''1 year''
      739000 739000 739000 (init_state NoFile))) = '''' \<or> (\<exists>fd fp. prediction_label (fst (on_plot_button_click (\<lambda>_ _ _. linear_series 250) ''Infosys'' ''1 year''
      739000 739000 739000 (init_state NoFile))) = forecast_text fd fp))"
  using reachable_label_is_forecast [OF reachable_forecast_click] reachable_forecast_click by simp

section \<open>The paths of a click\<close>

lemma enrich_rows_complete: "r \<in> set (enrich data) \<Longrightarrow> row_complete r"
  by (simp add: enrich_def dropna_def)

lemma enrich_short: "\<forall>b \<in> set data. bar_complete b \<Longrightarrow> length data < 200 \<Longrightarrow> enrich data = []"
  by (simp add: enrich_complete_eq_drop)

lemma predict_on_enrich:
  assumes "\<forall>b \<in> set data. bar_complete b" and "200 \<le> length data"
    and "valid_ordinal t" and "t + 30 \<le> MAXORDINAL"
  shows "predict_future_prices t (enrich data) 30 =
           Inr (map (\<lambda>i. t + i) [1..30],
                map (\<lambda>i. linreg_predict (ols_fit (training_set (enrich data))) (real_of_int (t + i))) [1..30])"
proof (rule predict_future_prices_Inr [OF _ _ assms(3,4)])
  show "enrich data \<noteq> []"
    using assms(2) by (simp add: enrich_complete_eq_drop [OF assms(1)])
  show "\<forall>r \<in> set (enrich data). bar_close r \<noteq> None"
    by (auto dest: enrich_rows_complete simp: row_complete_def)
qed


text \<open>
  C2. A click on a listed company with a supported duration, whose download holds at
  least 200 complete bars and whose 30-day horizon stays in the calendar, shows the
  figure of the enriched series with its forecast, puts the 30 forecast lines in the
  label, and then raises \<^verbatim>\<open>ValueError\<close> from \<^verbatim>\<open>save_predictions\<close>, leaving the
  ledger as it was.
\<close>

theorem click_forecast_raises:
  assumes "companies_get company = Some ticker"
    and "get_start_date t_start duration = Inr start_date"
    and "fetch ticker start_date (date_str t_end) = data"
    and "\<forall>b \<in> set data. bar_complete b" and "200 \<le> length data"
    and "valid_ordinal t_pred" and "t_pred + 30 \<le> MAXORDINAL"
  defines "fd \<equiv> map (\<lambda>i. t_pred + i) [1..30]"
    and "fp \<equiv> map (\<lambda>i. linreg_predict (ols_fit (training_set (enrich data))) (real_of_int (t_pred + i))) [1..30]"
  shows "on_plot_button_click fetch company duration t_end t_start t_pred s =
           (s\<lparr>plot_frame := Some \<lparr>fig_id = open_figures s, fig_title = plot_title ticker duration,
                                  fig_series = enrich data, fig_forecast = (fd, fp)\<rparr>,
              prediction_label := forecast_text fd fp,
              open_figures := Suc (open_figures s), global_ax := Some (open_figures s)\<rparr>,
            Some (ValueError AmbiguousTruthValue))"
proof -
  have ne: "data \<noteq> []" using assms(5) by auto
  have "fd \<noteq> []" and "length fp = 30" by (simp_all add: fd_def fp_def)
  with assms(1-3) ne predict_on_enrich [OF assms(4-7)] show ?thesis
    by (simp add: on_plot_button_click_def plot_stock_data_def Let_def fd_def fp_def
        save_predictions_forecast)
qed


text \<open>
  C18. A company name that is not a key of \<^verbatim>\<open>COMPANIES\<close> (the combobox is editable)
  changes nothing and raises nothing: the handler only prints.
\<close>

theorem click_unknown_company:
  assumes "companies_get company = None"
  shows "on_plot_button_click fetch company duration t_end t_start t_pred s = (s, None)"
  using assms by (simp add: on_plot_button_click_def)


text \<open>
  C17. A download of 1 to 199 complete bars leaves no row after \<^verbatim>\<open>dropna\<close>; the
  handler has already created a figure (and pointed \<^verbatim>\<open>global_ax\<close> at it) when the
  fit raises \<^verbatim>\<open>ValueError\<close>; plot and label are unchanged and the figure stays open.
\<close>

theorem click_short_download:
  assumes "companies_get company = Some ticker"
    and "get_start_date t_start duration = Inr start_date"
    and "fetch ticker start_date (date_str t_end) = data"
    and "data \<noteq> []" and "\<forall>b \<in> set data. bar_complete b" and "length data < 200"
  shows "on_plot_button_click fetch company duration t_end t_start t_pred s =
           (s\<lparr>open_figures := Suc (open_figures s), global_ax := Some (open_figures s)\<rparr>,
            Some (ValueError EmptyTrainingSet))"
  using assms enrich_short [OF assms(5,6)]
  by (simp add: on_plot_button_click_def plot_stock_data_def Let_def
      predict_future_prices_def linreg_fit_def)


text \<open>
  C19. A listed company with a duration outside the combobox's values raises
  \<^verbatim>\<open>ValueError\<close> from \<^verbatim>\<open>get_start_date\<close> before anything changes.
\<close>

theorem click_bad_duration:
  assumes "companies_get company = Some ticker" and "duration \<notin> set DURATION_OPTIONS"
  shows "on_plot_button_click fetch company duration t_end t_start t_pred s =
           (s, Some (ValueError UnsupportedDuration))"
  using assms by (simp add: on_plot_button_click_def plot_stock_data_def get_start_date_def
      DURATION_OPTIONS_def)

lemma infosys_listed: "companies_get ''Infosys'' = Some ''INFY.NS''"
  by (simp add: companies_get_def COMPANIES_def)

lemma one_year_start: "get_start_date 739000 ''1 year'' = Inr (date_str 738635)"
  by (simp add: get_start_date_def sub_days_def add_days_def valid_ordinal_def MAXORDINAL_def)

theorem click_forecast_raises_witness:
  "companies_get ''Infosys'' = Some ''INFY.NS'' \<and>
   get_start_date 739000 ''1 year'' = Inr (date_str 738635) \<and>
   list_all bar_complete (linear_series 250) \<and> 200 \<le> length (linear_series 250) \<and>
   valid_ordinal 739000 \<and> 739000 + 30 \<le> MAXORDINAL \<and>
   snd (on_plot_button_click (\<lambda>_ _ _. linear_series 250) ''Infosys'' ''1 year''
          739000 739000 739000 (init_state NoFile)) = Some (ValueError AmbiguousTruthValue)"
proof -
  have v: "valid_ordinal 739000" and m: "739000 + 30 \<le> MAXORDINAL"
    by (simp_all add: valid_ordinal_def MAXORDINAL_def)
  have l: "200 \<le> length (linear_series 250)" by simp
  from click_forecast_raises [where fetch = "\<lambda>_ _ _. linear_series 250" and t_end = 739000
      and s = "init_state NoFile", OF infosys_listed one_year_start refl linear_series_complete l v m]
  show ?thesis using infosys_listed one_year_start linear_series_complete v m l
    by (simp add: list_all_iff)
qed

theorem click_unknown_company_witness:
  "companies_get ''Apple'' = None \<and>
   on_plot_button_click (\<lambda>_ _ _. linear_series 250) ''Apple'' ''1 year'' 739000 739000 739000
     (init_state NoFile) = (init_state NoFile, None)"
proof -
  have h: "companies_get ''Apple'' = None" by (simp add: companies_get_def COMPANIES_def)
  from h click_unknown_company [OF h] show ?thesis by simp
qed

theorem click_short_download_witness:
  "companies_get ''Infosys'' = Some ''INFY.NS'' \<and>
   get_start_date 739000 ''1 year'' = Inr (date_str 738635) \<and>
   linear_series 10 \<noteq> [] \<and> list_all bar_complete (linear_series 10) \<and> length (linear_series 10) < 200 \<and>
   snd (on_plot_button_click (\<lambda>_ _ _. linear_series 10) ''Infosys'' ''1 year''
          739000 739000 739000 (init_state NoFile)) = Some (ValueError EmptyTrainingSet)"
proof -
  have n: "linear_series 10 \<noteq> []" and l: "length (linear_series 10) < 200"
    by (simp_all add: linear_series_def)
  from click_short_download [where fetch = "\<lambda>_ _ _. linear_series 10" and t_end = 739000
      and t_pred = 739000 and s = "init_state NoFile",
      OF infosys_listed one_year_start refl n linear_series_complete l]
  show ?thesis using infosys_listed one_year_start linear_series_complete n l
    by (simp add: list_all_iff)
qed

theorem click_bad_duration_witness:
  "companies_get ''Infosys'' = Some ''INFY.NS'' \<and> ''3 years'' \<notin> set DURATION_OPTIONS \<and>
   on_plot_button_click (\<lambda>_ _ _. linear_series 250) ''Infosys'' ''3 years'' 739000 739000 739000
     (init_state NoFile) = (init_state NoFile, Some (ValueError UnsupportedDuration))"
proof -
  have d: "''3 years'' \<notin> set DURATION_OPTIONS" by (simp add: DURATION_OPTIONS_def)
  from click_bad_duration [OF infosys_listed d] infosys_listed d show ?thesis by simp
qed

end
