(* ===== verification/Spec2Isabelle.thy ===== *)
theory Spec2Isabelle
  imports App
begin

text \<open>
  \<^bold>\<open>A verification model of the stock price plotter and forecaster\<close>
  (\<^verbatim>\<open>src/accuracy.py\<close>).

  \<^bold>\<open>The program.\<close> A Tk window with two editable comboboxes and a button. A click
  runs \<^verbatim>\<open>on_plot_button_click\<close>: it looks the company up in \<^verbatim>\<open>COMPANIES\<close>, resolves
  the duration to a start date (\<^verbatim>\<open>get_start_date\<close>), downloads daily bars
  (\<^verbatim>\<open>yf.download\<close>, an external service), adds 50- and 200-day moving averages and
  drops every row with a missing value, plots them, fits a least-squares line of close
  against date ordinal and extrapolates it over the 30 days after today
  (\<^verbatim>\<open>predict_future_prices\<close>), shows the forecast in a label, appends it to
  \<^verbatim>\<open>predictions.csv\<close> (\<^verbatim>\<open>save_predictions\<close>) and shows the earlier forecasts of the
  same ticker (\<^verbatim>\<open>display_previous_predictions\<close>). The components communicate by
  calls and through two pieces of shared state: the ledger file, and the window
  (plot frame, label, open figures, the global axis reference).

  \<^bold>\<open>Theories and what they model.\<close>
  \<^item> \<open>Prelude\<close>: the exceptions the program can meet as the datatype \<open>py_exc\<close>;
    results \<open>py_exc + 'a\<close> (\<open>Inl\<close> the exception) and their propagation
    (\<open>res_bind\<close>, and \<open>res_map\<close> for a list comprehension that may raise); decimal
    rendering (\<open>nat_str\<close>, \<open>zpad\<close>); shared lemmas on lists and real sums.
  \<^item> \<open>Calendar\<close>: dates as \<^verbatim>\<open>toordinal()\<close> values; \<^verbatim>\<open>timedelta\<close> arithmetic with its
    \<^verbatim>\<open>OverflowError\<close> outside years 1--9999 (\<open>add_days\<close>, \<open>sub_days\<close>);
    \<^verbatim>\<open>strftime('%Y-%m-%d')\<close> through CPython's \<^verbatim>\<open>_ord2ymd\<close> (\<open>ord2ymd\<close>,
    \<open>date_str\<close>). Library code, modelled from its documented behaviour.
  \<^item> \<open>Companies\<close>: \<^verbatim>\<open>COMPANIES\<close> as an association list, \<^verbatim>\<open>dict.get\<close> as
    \<open>companies_get\<close>, the combobox values and defaults (lines 13--29, 214--221).
  \<^item> \<open>DateRange\<close>: \<^verbatim>\<open>get_start_date\<close> (lines 37--48) with the clock reading as a
    parameter, and the resolver contract of the specification (\<open>duration_days\<close>).
  \<^item> \<open>Features\<close>: a downloaded row as the record \<open>bar\<close> (NaN is \<open>None\<close>), the
    enriched row as its extension; \<^verbatim>\<open>rolling(window).mean()\<close> as \<open>rolling_mean\<close>, the
    column assignments as \<open>with_moving_averages\<close>, \<^verbatim>\<open>dropna\<close> as a filter, their
    composition \<open>enrich\<close> (lines 79--84).
  \<^item> \<open>Forecast\<close>: \<^verbatim>\<open>LinearRegression.fit\<close> as centred least squares (\<open>ols_fit\<close>)
    behind its input checks (\<open>linreg_fit\<close>), \<^verbatim>\<open>predict\<close>, and
    \<^verbatim>\<open>predict_future_prices\<close> (lines 50--63); reals stand for floats.
  \<^item> \<open>Ledger\<close>: the file as \<open>csv_file\<close> (missing, a table, or empty and unreadable);
    \<^verbatim>\<open>ndarray.__bool__\<close> (\<open>np_truth\<close>); \<^verbatim>\<open>save_predictions\<close> and
    \<^verbatim>\<open>display_previous_predictions\<close> (lines 114--163) with the \<^verbatim>\<open>{:.2f}\<close> format;
    the specification's \<open>query\<close>.
  \<^item> \<open>App\<close>: the window state as the record \<open>app_state\<close>; \<^verbatim>\<open>plot_stock_data\<close> and
    \<^verbatim>\<open>on_plot_button_click\<close> (lines 65--112, 165--206) as state-passing functions that
    return the state reached and the exception that escaped the callback, if any; the
    Tk event loop as the step relation \<open>app_step\<close> (a click with any inputs, any
    download and a clock that does not go back) and its \<open>reachable\<close> states.
  \<^item> This theory: the specification's end-to-end scenario across the components.

  \<^bold>\<open>What the lemmas show.\<close> The deriver keeps exactly the rows from the 200th on
  of a complete series with the trailing means (and fewer when values are missing);
  the forecast line is the least-squares line, the forecast has one point per day on
  it, and the empty, single-row and out-of-calendar inputs behave as listed; the
  resolver meets its contract; the ledger's save and display implement the
  specification's append and query where they run. The central finding is that they
  never run from the window: \<^verbatim>\<open>save_predictions\<close> evaluates
  \<^verbatim>\<open>not future_prices\<close> on the 30-element numpy array, which raises
  \<^verbatim>\<open>ValueError\<close>, so in every reachable state the ledger file is the one the
  program started with and earlier predictions are never displayed.

  \<^bold>\<open>Bounds and fuel.\<close> Every loop of the program is over a finite list
  (\<open>map\<close>, \<open>filter\<close>, \<open>res_map\<close>), so no fuel is needed. The horizon is the code's
  30 days; the windows are the code's 50 and 200 rows; dates stay in
  \<open>valid_ordinal\<close>, the range of Python's \<^verbatim>\<open>date\<close>.

  \<^bold>\<open>Not modelled.\<close> The network download (an arbitrary function \<open>fetch\<close>: every
  theorem holds for every answer); plotting, widget layout, the toolbar and the
  \<^verbatim>\<open>SpanSelector\<close> zoom, which keep no state the logic reads; floating-point
  rounding (prices are reals); \<^verbatim>\<open>print\<close> output. The CSV text itself is not
  modelled: writing then reading the file gives back the rows written.

  \<^bold>\<open>Plan for later sittings.\<close> The round trip of \<open>ord2ymd\<close> with the inverse
  conversion (so that the 365/730/1825-day distance between the two date strings the
  download receives is a theorem about strings, and the effect of the clock crossing
  midnight between the readings \<open>t_end\<close> and \<open>t_start\<close>); the count of open figures
  as a function of the clicks; the ledger over a sequence of saves (no
  deduplication).
\<close>

section \<open>The specification's scenario\<close>

lemma with_moving_averages_bars:
  "r \<in> set (with_moving_averages data) \<Longrightarrow> bar.truncate r \<in> set data"
  by (auto simp: in_set_conv_nth nth_with_moving_averages)

lemma linear_series_on_line:
  "b \<in> set (linear_series n) \<Longrightarrow> bar_close b = Some (real_of_int (bar_date b) - 738000)"
  by (auto simp: linear_series_def)

lemma truncate_date_close:
  "bar_date (bar.truncate r) = bar_date r" "bar_close (bar.truncate r) = bar_close r"
  by (simp_all add: bar.defs)

text \<open>
  C4. The end-to-end scenario of the specification: 250 complete daily bars whose
  close rises by 1.0 a day give 51 enriched rows, and the forecast from them recovers
  the slope exactly: each of the 30 forecast points lies on the series' own line, one
  unit of price per day.
\<close>

theorem linear_scenario_forecast:
  assumes "valid_ordinal t" and "t + 30 \<le> MAXORDINAL"
  shows "length (enrich (linear_series 250)) = 51 \<and>
         predict_future_prices t (enrich (linear_series 250)) 30 =
           Inr (map (\<lambda>i. t + i) [1..30], map (\<lambda>i. real_of_int (t + i) - 738000) [1..30])"
proof -
  let ?rows = "enrich (linear_series 250)"
  have e: "?rows = drop 199 (with_moving_averages (linear_series 250))"
    by (rule enrich_complete_eq_drop [OF linear_series_complete])
  have line: "\<forall>p \<in> set (training_set ?rows). snd p = 1 * fst p + (- 738000)"
  proof
    fix p assume "p \<in> set (training_set ?rows)"
    then obtain r where r: "r \<in> set ?rows" and p: "p = (real_of_int (bar_date r), the (bar_close r))"
      by (auto simp: training_set_def)
    from r e have "bar.truncate r \<in> set (linear_series 250)"
      by (auto dest: in_set_dropD with_moving_averages_bars)
    from linear_series_on_line [OF this] p show "snd p = 1 * fst p + (- 738000)"
      by (simp add: truncate_date_close)
  qed
  have len: "length ?rows = 51" by (simp add: e)
  have nth: "training_set ?rows ! k = (738200 + real k, 200 + real k)" if k: "k < 51" for k
  proof -
    have "?rows ! k = with_moving_averages (linear_series 250) ! (199 + k)"
      unfolding e using k by simp
    also have "\<dots> = add_columns (linear_series 250 ! (199 + k))
        (rolling_mean 50 (map bar_close (linear_series 250)) ! (199 + k))
        (rolling_mean 200 (map bar_close (linear_series 250)) ! (199 + k))"
      using k by (simp add: nth_with_moving_averages)
    finally have "training_set ?rows ! k = (real_of_int (bar_date (linear_series 250 ! (199 + k))),
                     the (bar_close (linear_series 250 ! (199 + k))))"
      using k len by (simp add: training_set_def)
    then show ?thesis using k by (simp add: linear_series_def)
  qed
  have r0: "training_set ?rows ! 0 = (738200, 200)" and r1: "training_set ?rows ! 1 = (738201, 201)"
    using nth [of 0] nth [of 1] by simp_all
  have m0: "training_set ?rows ! 0 \<in> set (training_set ?rows)"
    by (rule nth_mem) (simp add: training_set_def len)
  have m1: "training_set ?rows ! 1 \<in> set (training_set ?rows)"
    by (rule nth_mem) (simp add: training_set_def len)
  from ols_fit_exact [OF line m0 m1] r0 r1
  have fit: "ols_fit (training_set ?rows) = (1, - 738000)" by simp
  from predict_on_enrich [OF linear_series_complete _ assms] fit len show ?thesis
    by (simp add: linreg_predict_def)
qed
theorem linear_scenario_forecast_witness:
  "valid_ordinal 739000 \<and> 739000 + 30 \<le> MAXORDINAL \<and> length (enrich (linear_series 250)) = 51 \<and>
   predict_future_prices 739000 (enrich (linear_series 250)) 30 =
     Inr (map (\<lambda>i. 739000 + i) [1..30], map (\<lambda>i. real_of_int (739000 + i) - 738000) [1..30])"
proof -
  have v: "valid_ordinal 739000" and m: "739000 + 30 \<le> MAXORDINAL"
    by (simp_all add: valid_ordinal_def MAXORDINAL_def)
  from linear_scenario_forecast [OF v m] v m show ?thesis by simp
qed

end
